theory Spec2Isabelle
  imports Main "HOL-Library.Word"
begin

unbundle bit_operations_syntax

section \<open>The MaxLinear/Exar USB serial driver (xr_serial.c)\<close>

text \<open>
  A shallow embedding of the register access layer, the UART lifecycle, the baud-rate
  engine, the modem-control and break operations and the termios translation of
  \<^verbatim>\<open>xr_serial.c\<close>. C integers are words of their width: \<^verbatim>\<open>u8\<close>, \<^verbatim>\<open>u16\<close>,
  \<^verbatim>\<open>u32\<close> and \<^verbatim>\<open>unsigned int\<close> wrap around as the C types do, and every implicit
  narrowing of the source (an \<^verbatim>\<open>int\<close> table entry passed as a \<^verbatim>\<open>u8\<close> register, a
  32-bit value OR-ed into a \<^verbatim>\<open>u8\<close>) is written as a conversion.
\<close>

type_synonym u8 = "8 word"
type_synonym u16 = "16 word"
type_synonym u32 = "32 word"

subsection \<open>Constants of the source\<close>

definition XR_INT_OSC_HZ :: u32 where "XR_INT_OSC_HZ = 48000000"
definition MIN_SPEED :: u32 where "MIN_SPEED = 46"
definition MAX_SPEED :: u32 where "MAX_SPEED = XR_INT_OSC_HZ"

definition CLOCK_DIVISOR_0 :: u8 where "CLOCK_DIVISOR_0 = 0x04"
definition CLOCK_DIVISOR_1 :: u8 where "CLOCK_DIVISOR_1 = 0x05"
definition CLOCK_DIVISOR_2 :: u8 where "CLOCK_DIVISOR_2 = 0x06"
definition TX_CLOCK_MASK_0 :: u8 where "TX_CLOCK_MASK_0 = 0x07"
definition TX_CLOCK_MASK_1 :: u8 where "TX_CLOCK_MASK_1 = 0x08"
definition RX_CLOCK_MASK_0 :: u8 where "RX_CLOCK_MASK_0 = 0x09"
definition RX_CLOCK_MASK_1 :: u8 where "RX_CLOCK_MASK_1 = 0x0a"

definition UART_REG_BLOCK :: u8 where "UART_REG_BLOCK = 0"
definition UM_REG_BLOCK :: u8 where "UM_REG_BLOCK = 4"

definition UM_FIFO_ENABLE_REG :: u8 where "UM_FIFO_ENABLE_REG = 0x10"
definition UM_ENABLE_TX_FIFO :: u8 where "UM_ENABLE_TX_FIFO = 0x01"
definition UM_ENABLE_RX_FIFO :: u8 where "UM_ENABLE_RX_FIFO = 0x02"

definition UART_ENABLE_TX :: u8 where "UART_ENABLE_TX = 0x1"
definition UART_ENABLE_RX :: u8 where "UART_ENABLE_RX = 0x2"

definition UART_MODE_DTR :: u8 where "UART_MODE_DTR = 0x08"  \<comment> \<open>\<^verbatim>\<open>BIT(3)\<close>\<close>
definition UART_MODE_RTS :: u8 where "UART_MODE_RTS = 0x20"  \<comment> \<open>\<^verbatim>\<open>BIT(5)\<close>\<close>

definition UART_BREAK_ON :: u8 where "UART_BREAK_ON = 0xff"
definition UART_BREAK_OFF :: u8 where "UART_BREAK_OFF = 0"

definition UART_DATA_7 :: u8 where "UART_DATA_7 = 0x7"
definition UART_DATA_8 :: u8 where "UART_DATA_8 = 0x8"

definition UART_PARITY_ODD :: u8 where "UART_PARITY_ODD = push_bit 4 0x1"
definition UART_PARITY_EVEN :: u8 where "UART_PARITY_EVEN = push_bit 4 0x2"
definition UART_PARITY_MARK :: u8 where "UART_PARITY_MARK = push_bit 4 0x3"
definition UART_PARITY_SPACE :: u8 where "UART_PARITY_SPACE = push_bit 4 0x4"

definition UART_STOP_1 :: u8 where "UART_STOP_1 = push_bit 7 0x0"
definition UART_STOP_2 :: u8 where "UART_STOP_2 = push_bit 7 0x1"

definition UART_FLOW_MODE_NONE :: u8 where "UART_FLOW_MODE_NONE = 0x0"
definition UART_FLOW_MODE_HW :: u8 where "UART_FLOW_MODE_HW = 0x1"
definition UART_FLOW_MODE_SW :: u8 where "UART_FLOW_MODE_SW = 0x2"

definition UART_MODE_GPIO_MASK :: u8 where "UART_MODE_GPIO_MASK = 0x07"  \<comment> \<open>\<^verbatim>\<open>GENMASK(2, 0)\<close>\<close>
definition UART_MODE_RTS_CTS :: u8 where "UART_MODE_RTS_CTS = 0x1"

definition VIA_CDC_REGISTER :: int where "VIA_CDC_REGISTER = - 1"

text \<open>
  Modelled from the spec: the request-type bits and the class request codes come from
  the kernel's \<^verbatim>\<open>linux/usb/ch9.h\<close> and \<^verbatim>\<open>linux/usb/cdc.h\<close>, which are not part of
  the repository. Section 6 of the specification gives \<^verbatim>\<open>bmRequestType = 0x40\<close> for a
  vendor SET, \<^verbatim>\<open>0xC0\<close> for a vendor GET, \<^verbatim>\<open>0x21\<close> for a class request to an
  interface, and the request codes \<^verbatim>\<open>SET_LINE_CODING = 0x20\<close>, \<^verbatim>\<open>SEND_BREAK = 0x23\<close>.
\<close>

definition USB_DIR_OUT :: u8 where "USB_DIR_OUT = 0"
definition USB_DIR_IN :: u8 where "USB_DIR_IN = 0x80"
definition USB_TYPE_CLASS :: u8 where "USB_TYPE_CLASS = 0x20"
definition USB_TYPE_VENDOR :: u8 where "USB_TYPE_VENDOR = 0x40"
definition USB_RECIP_DEVICE :: u8 where "USB_RECIP_DEVICE = 0x00"
definition USB_RECIP_INTERFACE :: u8 where "USB_RECIP_INTERFACE = 0x01"
definition USB_CDC_REQ_SET_LINE_CODING :: u8 where "USB_CDC_REQ_SET_LINE_CODING = 0x20"
definition USB_CDC_REQ_SEND_BREAK :: u8 where "USB_CDC_REQ_SEND_BREAK = 0x23"

subsection \<open>Models and the register table\<close>

text \<open>
  \<^verbatim>\<open>enum xr_model\<close>. \<open>MAX_XR_MODELS\<close> is the array bound of the enum; in the model it
  stands for a value outside the four chips, which the \<^verbatim>\<open>default:\<close> branches of
  \<^verbatim>\<open>xr_set_reg\<close> and \<^verbatim>\<open>xr_get_reg\<close> reject.
\<close>

datatype xr_model = XR2280X | XR21B1411 | XR21V141X | XR21B142X | MAX_XR_MODELS

datatype xr_hal_type =
    REG_ENABLE | REG_FORMAT | REG_FLOW_CTRL | REG_XON_CHAR | REG_XOFF_CHAR
  | REG_TX_BREAK | REG_RS485_DELAY | REG_GPIO_MODE | REG_GPIO_DIR | REG_GPIO_SET
  | REG_GPIO_CLR | REG_GPIO_STATUS | REG_GPIO_INT_MASK | REG_CUSTOMIZED_INT
  | REG_GPIO_PULL_UP_ENABLE | REG_GPIO_PULL_DOWN_ENABLE | REG_LOOPBACK
  | REG_LOW_LATENCY | REG_CUSTOM_DRIVER | REQ_SET | REQ_GET

text \<open>
  \<^verbatim>\<open>xr_hal_table[MAX_XR_MODELS][MAX_XR_HAL_TYPE]\<close>, an array of \<^verbatim>\<open>int\<close>. Entries that a
  row's designated initialisers leave out are 0. The array has no row for
  \<open>MAX_XR_MODELS\<close>: C gives a read there no meaning, the model gives 0, and the
  theorems about functions that read the table at the port's model assume one of the
  four chips.
\<close>

definition xr_hal_table :: "xr_model \<Rightarrow> xr_hal_type \<Rightarrow> int" where
  "xr_hal_table m t =
    (case m of
       XR2280X \<Rightarrow>
         (case t of
            REG_ENABLE \<Rightarrow> 0x40 | REG_FORMAT \<Rightarrow> 0x45 | REG_FLOW_CTRL \<Rightarrow> 0x46
          | REG_XON_CHAR \<Rightarrow> 0x47 | REG_XOFF_CHAR \<Rightarrow> 0x48 | REG_TX_BREAK \<Rightarrow> 0x4a
          | REG_RS485_DELAY \<Rightarrow> 0x4b | REG_GPIO_MODE \<Rightarrow> 0x4c | REG_GPIO_DIR \<Rightarrow> 0x4d
          | REG_GPIO_SET \<Rightarrow> 0x4e | REG_GPIO_CLR \<Rightarrow> 0x4f | REG_GPIO_STATUS \<Rightarrow> 0x50
          | REG_GPIO_INT_MASK \<Rightarrow> 0x51 | REG_CUSTOMIZED_INT \<Rightarrow> 0x52
          | REG_GPIO_PULL_UP_ENABLE \<Rightarrow> 0x54 | REG_GPIO_PULL_DOWN_ENABLE \<Rightarrow> 0x55
          | REG_LOOPBACK \<Rightarrow> 0x56 | REG_LOW_LATENCY \<Rightarrow> 0x66 | REG_CUSTOM_DRIVER \<Rightarrow> 0x81
          | REQ_SET \<Rightarrow> 5 | REQ_GET \<Rightarrow> 5)
     | XR21B1411 \<Rightarrow>
         (case t of
            REG_ENABLE \<Rightarrow> 0xc00 | REG_FORMAT \<Rightarrow> VIA_CDC_REGISTER | REG_FLOW_CTRL \<Rightarrow> 0xc06
          | REG_XON_CHAR \<Rightarrow> 0xc07 | REG_XOFF_CHAR \<Rightarrow> 0xc08 | REG_TX_BREAK \<Rightarrow> 0xc0a
          | REG_RS485_DELAY \<Rightarrow> 0xc0b | REG_GPIO_MODE \<Rightarrow> 0xc0c | REG_GPIO_DIR \<Rightarrow> 0xc0d
          | REG_GPIO_SET \<Rightarrow> 0xc0e | REG_GPIO_CLR \<Rightarrow> 0xc0f | REG_GPIO_STATUS \<Rightarrow> 0xc10
          | REG_GPIO_INT_MASK \<Rightarrow> 0xc11 | REG_CUSTOMIZED_INT \<Rightarrow> 0xc12
          | REG_GPIO_PULL_UP_ENABLE \<Rightarrow> 0xc14 | REG_GPIO_PULL_DOWN_ENABLE \<Rightarrow> 0xc15
          | REG_LOOPBACK \<Rightarrow> 0xc16 | REG_LOW_LATENCY \<Rightarrow> 0xcc2 | REG_CUSTOM_DRIVER \<Rightarrow> 0x20d
          | REQ_SET \<Rightarrow> 0 | REQ_GET \<Rightarrow> 1)
     | XR21V141X \<Rightarrow>
         (case t of
            REG_ENABLE \<Rightarrow> 0x03 | REG_FORMAT \<Rightarrow> 0x0b | REG_FLOW_CTRL \<Rightarrow> 0x0c
          | REG_XON_CHAR \<Rightarrow> 0x10 | REG_XOFF_CHAR \<Rightarrow> 0x11 | REG_LOOPBACK \<Rightarrow> 0x12
          | REG_TX_BREAK \<Rightarrow> 0x14 | REG_RS485_DELAY \<Rightarrow> 0x15 | REG_GPIO_MODE \<Rightarrow> 0x1a
          | REG_GPIO_DIR \<Rightarrow> 0x1b | REG_GPIO_INT_MASK \<Rightarrow> 0x1c | REG_GPIO_SET \<Rightarrow> 0x1d
          | REG_GPIO_CLR \<Rightarrow> 0x1e | REG_GPIO_STATUS \<Rightarrow> 0x1f
          | REQ_SET \<Rightarrow> 0 | REQ_GET \<Rightarrow> 1
          | _ \<Rightarrow> 0)
     | XR21B142X \<Rightarrow>
         (case t of
            REG_ENABLE \<Rightarrow> 0x00 | REG_FORMAT \<Rightarrow> VIA_CDC_REGISTER | REG_FLOW_CTRL \<Rightarrow> 0x06
          | REG_XON_CHAR \<Rightarrow> 0x07 | REG_XOFF_CHAR \<Rightarrow> 0x08 | REG_TX_BREAK \<Rightarrow> 0x0a
          | REG_RS485_DELAY \<Rightarrow> 0x0b | REG_GPIO_MODE \<Rightarrow> 0x0c | REG_GPIO_DIR \<Rightarrow> 0x0d
          | REG_GPIO_SET \<Rightarrow> 0x0e | REG_GPIO_CLR \<Rightarrow> 0x0f | REG_GPIO_STATUS \<Rightarrow> 0x10
          | REG_GPIO_INT_MASK \<Rightarrow> 0x11 | REG_CUSTOMIZED_INT \<Rightarrow> 0x12
          | REG_GPIO_PULL_UP_ENABLE \<Rightarrow> 0x14 | REG_GPIO_PULL_DOWN_ENABLE \<Rightarrow> 0x15
          | REG_LOOPBACK \<Rightarrow> 0x16 | REG_LOW_LATENCY \<Rightarrow> 0x46 | REG_CUSTOM_DRIVER \<Rightarrow> 0x60
          | REQ_SET \<Rightarrow> 0 | REQ_GET \<Rightarrow> 0)
     | MAX_XR_MODELS \<Rightarrow> 0)"

text \<open>
  \<^verbatim>\<open>struct xr_port_private\<close>. Of the control interface the driver reads only
  \<^verbatim>\<open>altsetting[0].desc.bInterfaceNumber\<close>.
\<close>

record usb_interface =
  bInterfaceNumber :: u8

record xr_port_private =
  model :: xr_model
  channel :: u32
  control_if :: usb_interface

subsection \<open>The USB transport and the allocator\<close>

text \<open>
  One control transfer as \<^verbatim>\<open>usb_control_msg\<close> receives it: the direction of the pipe
  (\<^verbatim>\<open>usb_rcvctrlpipe\<close> or \<^verbatim>\<open>usb_sndctrlpipe\<close>), the five setup fields with the widths
  of the kernel's prototype (\<^verbatim>\<open>__u8 request, __u8 requesttype, __u16 value, __u16
  index, __u16 size\<close>) and the bytes of the buffer handed to an OUT request.
\<close>

datatype pipe_dir = Snd_Ctrl | Rcv_Ctrl

record xfer =
  pipe :: pipe_dir
  bRequest :: u8
  bmRequestType :: u8
  wValue :: u16
  wIndex :: u16
  wLength :: u16
  payload :: "u8 list"

text \<open>
  The driver's world: the control transfers attempted so far, oldest first, and the
  number of allocations made so far.
\<close>

record world =
  xfers :: "xfer list"
  allocs :: nat

text \<open>
  What the driver cannot decide: the status that the \<open>n\<close>-th control transfer returns,
  the byte the device leaves in a one-byte IN buffer on that transfer, whether the
  \<open>n\<close>-th allocation succeeds, and the contents of the automatic variables that the
  source reads before assigning them (\<^verbatim>\<open>state\<close> in \<^verbatim>\<open>xr_break_ctl\<close>, \<^verbatim>\<open>set\<close>
  and \<^verbatim>\<open>clear\<close> in \<^verbatim>\<open>xr_set_termios_cdc\<close>) or hands out by address
  (\<^verbatim>\<open>gpio_mode\<close> in \<^verbatim>\<open>xr_set_flow_mode\<close>).
\<close>

record env =
  usb_ret :: "nat \<Rightarrow> int"
  usb_in :: "nat \<Rightarrow> u8"
  kmalloc_ok :: "nat \<Rightarrow> bool"
  uninit_state :: u8
  uninit_set :: u32
  uninit_clear :: u32
  uninit_gpio_mode :: u8

definition usb_control_msg :: "env \<Rightarrow> xfer \<Rightarrow> world \<Rightarrow> int \<times> u8 \<times> world" where
  "usb_control_msg e x w =
    (usb_ret e (length (xfers w)), usb_in e (length (xfers w)),
     w\<lparr>xfers := xfers w @ [x]\<rparr>)"

definition kmalloc :: "env \<Rightarrow> world \<Rightarrow> bool \<times> world" where
  "kmalloc e w = (kmalloc_ok e (allocs w), w\<lparr>allocs := Suc (allocs w)\<rparr>)"

text \<open>
  Error returns. The source returns \<^verbatim>\<open>-EINVAL\<close>, \<^verbatim>\<open>-ENOMEM\<close>, \<^verbatim>\<open>-EIO\<close> or the
  negative status of the transport; success is 0, here \<open>Inr ()\<close>.
\<close>

datatype err = EINVAL | ENOMEM | EIO | EUSB int

type_synonym status = "err + unit"

abbreviation OK :: status where "OK \<equiv> Inr ()"

subsection \<open>Register access layer\<close>

text \<open>
  \<^verbatim>\<open>xr_set_reg(port, block, reg, val)\<close>. \<^verbatim>\<open>reg\<close> is a \<^verbatim>\<open>u8\<close>: the channel term is
  computed in \<^verbatim>\<open>unsigned int\<close> and the assignment \<^verbatim>\<open>reg |= ...\<close> keeps the low eight
  bits. \<^verbatim>\<open>wIndex\<close> is \<^verbatim>\<open>reg | (block << 8)\<close>, computed in \<^verbatim>\<open>int\<close> and below
  \<open>2 ^ 16\<close>.
\<close>

definition xr_set_reg :: "env \<Rightarrow> xr_port_private \<Rightarrow> u8 \<Rightarrow> u8 \<Rightarrow> u8 \<Rightarrow> world \<Rightarrow> status \<times> world" where
  "xr_set_reg e p block reg val w =
    (case (case model p of
             XR2280X \<Rightarrow> Some reg
           | XR21B1411 \<Rightarrow> Some reg
           | XR21V141X \<Rightarrow>
               Some (if channel p \<noteq> 0
                     then ucast ((ucast reg :: u32) OR push_bit 8 (channel p - 1))
                     else reg)
           | XR21B142X \<Rightarrow> Some (ucast ((ucast reg :: u32) OR push_bit 1 (channel p - 4)))
           | MAX_XR_MODELS \<Rightarrow> None) of
       None \<Rightarrow> (Inl EINVAL, w)
     | Some reg \<Rightarrow>
         (let (ret, _, w') =
                usb_control_msg e
                  \<lparr>pipe = Snd_Ctrl,
                   bRequest = word_of_int (xr_hal_table (model p) REQ_SET),
                   bmRequestType = USB_DIR_OUT OR USB_TYPE_VENDOR OR USB_RECIP_DEVICE,
                   wValue = ucast val,
                   wIndex = ucast ((ucast reg :: u32) OR push_bit 8 (ucast block :: u32)),
                   wLength = 0,
                   payload = []\<rparr> w
          in if ret < 0 then (Inl (EUSB ret), w') else (OK, w')))"

text \<open>
  \<^verbatim>\<open>xr_get_reg(port, block, reg, val)\<close>. The argument \<open>val\<close> is the byte that
  \<^verbatim>\<open>*val\<close> holds at the call, the second component of the result the byte it holds at
  the return.
\<close>

definition xr_get_reg :: "env \<Rightarrow> xr_port_private \<Rightarrow> u8 \<Rightarrow> u8 \<Rightarrow> u8 \<Rightarrow> world \<Rightarrow> status \<times> u8 \<times> world" where
  "xr_get_reg e p block reg val w =
    (let (dmabuf_ok, w0) = kmalloc e w in
     if \<not> dmabuf_ok then (Inl ENOMEM, val, w0)
     else
       (case (case model p of
                XR2280X \<Rightarrow> Some reg
              | XR21B1411 \<Rightarrow> Some reg
              | XR21V141X \<Rightarrow>
                  Some (if channel p \<noteq> 0
                        then ucast ((ucast reg :: u32) OR push_bit 8 (channel p - 1))
                        else reg)
              | XR21B142X \<Rightarrow> Some (ucast ((ucast reg :: u32) OR push_bit 1 (channel p - 4)))
              | MAX_XR_MODELS \<Rightarrow> None) of
          None \<Rightarrow> (Inl EINVAL, val, w0)
        | Some reg \<Rightarrow>
            (let (ret, dmabuf, w') =
                   usb_control_msg e
                     \<lparr>pipe = Rcv_Ctrl,
                      bRequest = word_of_int (xr_hal_table (model p) REQ_GET),
                      bmRequestType = USB_DIR_IN OR USB_TYPE_VENDOR OR USB_RECIP_DEVICE,
                      wValue = 0,
                      wIndex = ucast ((ucast reg :: u32) OR push_bit 8 (ucast block :: u32)),
                      wLength = 1,
                      payload = []\<rparr> w0
             in if ret = 1 then (OK, dmabuf, w')
                else (if ret \<ge> 0 then Inl EIO else Inl (EUSB ret), val, w'))))"

definition xr_set_reg_uart :: "env \<Rightarrow> xr_port_private \<Rightarrow> u8 \<Rightarrow> u8 \<Rightarrow> world \<Rightarrow> status \<times> world" where
  "xr_set_reg_uart e p reg val w = xr_set_reg e p UART_REG_BLOCK reg val w"

definition xr_get_reg_uart :: "env \<Rightarrow> xr_port_private \<Rightarrow> u8 \<Rightarrow> u8 \<Rightarrow> world \<Rightarrow> status \<times> u8 \<times> world" where
  "xr_get_reg_uart e p reg val w = xr_get_reg e p UART_REG_BLOCK reg val w"

definition xr_set_reg_um :: "env \<Rightarrow> xr_port_private \<Rightarrow> u8 \<Rightarrow> u8 \<Rightarrow> world \<Rightarrow> status \<times> world" where
  "xr_set_reg_um e p reg val w = xr_set_reg e p UM_REG_BLOCK reg val w"

text \<open>
  \<^verbatim>\<open>xr_usb_serial_ctrl_msg(port, request, val, buf, len)\<close>. \<open>buf\<close> is the content of
  the caller's buffer and \<open>len\<close> its length; \<^verbatim>\<open>kmemdup\<close> is called only when
  \<^verbatim>\<open>len\<close> is not 0. \<^verbatim>\<open>request\<close> and \<^verbatim>\<open>val\<close> are \<^verbatim>\<open>int\<close> in the source and are
  narrowed to the \<^verbatim>\<open>__u8\<close> and \<^verbatim>\<open>__u16\<close> parameters of \<^verbatim>\<open>usb_control_msg\<close>. The
  copy back into \<^verbatim>\<open>buf\<close> after a successful transfer is not modelled: no caller reads
  the buffer again.
\<close>

definition xr_usb_serial_ctrl_msg :: "env \<Rightarrow> xr_port_private \<Rightarrow> int \<Rightarrow> int \<Rightarrow> u8 list \<Rightarrow> world \<Rightarrow> status \<times> world" where
  "xr_usb_serial_ctrl_msg e p request val buf w =
    (let if_num = bInterfaceNumber (control_if p);
         (dmabuf_ok, w0) = (if length buf \<noteq> 0 then kmalloc e w else (True, w))
     in if \<not> dmabuf_ok then (Inl ENOMEM, w0)
        else
          (let (ret, _, w') =
                 usb_control_msg e
                   \<lparr>pipe = Rcv_Ctrl,
                    bRequest = word_of_int request,
                    bmRequestType = USB_TYPE_CLASS OR USB_RECIP_INTERFACE,
                    wValue = word_of_int val,
                    wIndex = ucast if_num,
                    wLength = of_nat (length buf),
                    payload = buf\<rparr> w0
           in if ret < 0 then (Inl (EUSB ret), w') else (OK, w')))"

subsection \<open>UART lifecycle\<close>

definition xr_uart_enable :: "env \<Rightarrow> xr_port_private \<Rightarrow> world \<Rightarrow> status \<times> world" where
  "xr_uart_enable e p w =
    (if model p \<noteq> XR21V141X
     then xr_set_reg_uart e p (word_of_int (xr_hal_table (model p) REG_ENABLE))
            (UART_ENABLE_TX OR UART_ENABLE_RX) w
     else
       (let (ret, w) = xr_set_reg_um e p UM_FIFO_ENABLE_REG UM_ENABLE_TX_FIFO w
        in if ret \<noteq> OK then (ret, w)
           else
             (let (ret, w) = xr_set_reg_uart e p (word_of_int (xr_hal_table (model p) REG_ENABLE))
                               (UART_ENABLE_TX OR UART_ENABLE_RX) w
              in if ret \<noteq> OK then (ret, w)
                 else
                   (let (ret, w) = xr_set_reg_um e p UM_FIFO_ENABLE_REG
                                     (UM_ENABLE_TX_FIFO OR UM_ENABLE_RX_FIFO) w
                    in if ret \<noteq> OK
                       then (ret, snd (xr_set_reg_uart e p
                                         (word_of_int (xr_hal_table (model p) REG_ENABLE)) 0 w))
                       else (ret, w)))))"

definition xr_uart_disable :: "env \<Rightarrow> xr_port_private \<Rightarrow> world \<Rightarrow> status \<times> world" where
  "xr_uart_disable e p w =
    (let (ret, w) = xr_set_reg_uart e p (word_of_int (xr_hal_table (model p) REG_ENABLE)) 0 w
     in if ret \<noteq> OK then (ret, w)
        else if model p \<noteq> XR21V141X then (OK, w)
        else xr_set_reg_um e p UM_FIFO_ENABLE_REG 0 w)"

subsection \<open>Line settings and the kernel's header constants\<close>

text \<open>
  \<^verbatim>\<open>struct ktermios\<close>, the part of the tty the driver reads: \<^verbatim>\<open>tcflag_t\<close> and
  \<^verbatim>\<open>speed_t\<close> are \<^verbatim>\<open>unsigned int\<close>, \<^verbatim>\<open>cc_t\<close> is \<^verbatim>\<open>unsigned char\<close>.
\<close>

record ktermios =
  c_iflag :: u32
  c_cflag :: u32
  c_cc :: "nat \<Rightarrow> u8"
  c_ospeed :: u32

text \<open>
  The termios and modem-line constants of the kernel headers, the byte order of the
  host and the two tty helpers the driver calls are not part of the repository, and
  several of them differ between architectures. The model takes them as a parameter.
\<close>

record khdr =
  TIOCM_DTR :: u32
  TIOCM_RTS :: u32
  CBAUD :: u32
  B0 :: u32
  CRTSCTS :: u32
  CSIZE :: u32
  CS5 :: u32
  CS6 :: u32
  CS7 :: u32
  CS8 :: u32
  CSTOPB :: u32
  PARENB :: u32
  PARODD :: u32
  CMSPAR :: u32
  IXON :: u32
  VSTART :: nat
  VSTOP :: nat
  cpu_big_endian :: bool
  tty_get_baud_rate :: "ktermios \<Rightarrow> u32"
  tty_encode_baud_rate :: "ktermios \<Rightarrow> u32 \<Rightarrow> u32 \<Rightarrow> ktermios"

definition C_BAUD :: "khdr \<Rightarrow> ktermios \<Rightarrow> u32" where
  "C_BAUD k tty = c_cflag tty AND CBAUD k"

definition C_CSIZE :: "khdr \<Rightarrow> ktermios \<Rightarrow> u32" where
  "C_CSIZE k tty = c_cflag tty AND CSIZE k"

definition C_CRTSCTS :: "khdr \<Rightarrow> ktermios \<Rightarrow> u32" where
  "C_CRTSCTS k tty = c_cflag tty AND CRTSCTS k"

definition C_CSTOPB :: "khdr \<Rightarrow> ktermios \<Rightarrow> u32" where
  "C_CSTOPB k tty = c_cflag tty AND CSTOPB k"

definition C_PARENB :: "khdr \<Rightarrow> ktermios \<Rightarrow> u32" where
  "C_PARENB k tty = c_cflag tty AND PARENB k"

definition C_PARODD :: "khdr \<Rightarrow> ktermios \<Rightarrow> u32" where
  "C_PARODD k tty = c_cflag tty AND PARODD k"

definition C_CMSPAR :: "khdr \<Rightarrow> ktermios \<Rightarrow> u32" where
  "C_CMSPAR k tty = c_cflag tty AND CMSPAR k"

definition I_IXON :: "khdr \<Rightarrow> ktermios \<Rightarrow> u32" where
  "I_IXON k tty = c_iflag tty AND IXON k"

definition START_CHAR :: "khdr \<Rightarrow> ktermios \<Rightarrow> u8" where
  "START_CHAR k tty = c_cc tty (VSTART k)"

definition STOP_CHAR :: "khdr \<Rightarrow> ktermios \<Rightarrow> u8" where
  "STOP_CHAR k tty = c_cc tty (VSTOP k)"

subsection \<open>Modem-control lines\<close>

definition xr_tiocmset_port :: "khdr \<Rightarrow> env \<Rightarrow> xr_port_private \<Rightarrow> u32 \<Rightarrow> u32 \<Rightarrow> world \<Rightarrow> status \<times> world" where
  "xr_tiocmset_port k e p set_mask clear_mask w =
    (let gpio_set = (0 :: u8);
         gpio_clr = (0 :: u8);
         ret = OK;
         gpio_clr = (if set_mask AND TIOCM_RTS k \<noteq> 0 then gpio_clr OR UART_MODE_RTS else gpio_clr);
         gpio_clr = (if set_mask AND TIOCM_DTR k \<noteq> 0 then gpio_clr OR UART_MODE_DTR else gpio_clr);
         gpio_set = (if clear_mask AND TIOCM_RTS k \<noteq> 0 then gpio_set OR UART_MODE_RTS else gpio_set);
         gpio_set = (if clear_mask AND TIOCM_DTR k \<noteq> 0 then gpio_set OR UART_MODE_DTR else gpio_set);
         (ret, w) = (if gpio_clr \<noteq> 0
                     then xr_set_reg_uart e p (word_of_int (xr_hal_table (model p) REG_GPIO_CLR))
                            gpio_clr w
                     else (ret, w));
         (ret, w) = (if gpio_set \<noteq> 0
                     then xr_set_reg_uart e p (word_of_int (xr_hal_table (model p) REG_GPIO_SET))
                            gpio_set w
                     else (ret, w))
     in (ret, w))"

definition xr_dtr_rts :: "khdr \<Rightarrow> env \<Rightarrow> xr_port_private \<Rightarrow> bool \<Rightarrow> world \<Rightarrow> world" where
  "xr_dtr_rts k e p on w =
    (if on then snd (xr_tiocmset_port k e p (TIOCM_DTR k OR TIOCM_RTS k) 0 w)
     else snd (xr_tiocmset_port k e p 0 (TIOCM_DTR k OR TIOCM_RTS k) w))"

subsection \<open>Break signaling\<close>

text \<open>
  \<^verbatim>\<open>xr_break_ctl(tty, break_state)\<close>. On the models other than XR21V141X the source
  passes the automatic variable \<^verbatim>\<open>state\<close> to the class request before any assignment
  to it; what it holds there is \<open>uninit_state e\<close>.
\<close>

definition xr_break_ctl :: "env \<Rightarrow> xr_port_private \<Rightarrow> int \<Rightarrow> world \<Rightarrow> world" where
  "xr_break_ctl e p break_state w =
    (let state = uninit_state e
     in if model p \<noteq> XR21V141X
        then snd (xr_usb_serial_ctrl_msg e p (uint USB_CDC_REQ_SEND_BREAK) (uint state) [] w)
        else
          (let state = (if break_state = 0 then UART_BREAK_OFF else UART_BREAK_ON)
           in snd (xr_set_reg_uart e p (word_of_int (xr_hal_table (model p) REG_TX_BREAK))
                     state w)))"

subsection \<open>Baud-rate engine\<close>

record xr_txrx_clk_mask =
  tx :: u16
  rx0 :: u16
  rx1 :: u16

definition xr21v141x_txrx_clk_masks :: "xr_txrx_clk_mask list" where
  "xr21v141x_txrx_clk_masks =
    [\<lparr>tx = 0x000, rx0 = 0x000, rx1 = 0x000\<rparr>,
     \<lparr>tx = 0x000, rx0 = 0x000, rx1 = 0x000\<rparr>,
     \<lparr>tx = 0x100, rx0 = 0x000, rx1 = 0x100\<rparr>,
     \<lparr>tx = 0x020, rx0 = 0x400, rx1 = 0x020\<rparr>,
     \<lparr>tx = 0x010, rx0 = 0x100, rx1 = 0x010\<rparr>,
     \<lparr>tx = 0x208, rx0 = 0x040, rx1 = 0x208\<rparr>,
     \<lparr>tx = 0x104, rx0 = 0x820, rx1 = 0x108\<rparr>,
     \<lparr>tx = 0x844, rx0 = 0x210, rx1 = 0x884\<rparr>,
     \<lparr>tx = 0x444, rx0 = 0x110, rx1 = 0x444\<rparr>,
     \<lparr>tx = 0x122, rx0 = 0x888, rx1 = 0x224\<rparr>,
     \<lparr>tx = 0x912, rx0 = 0x448, rx1 = 0x924\<rparr>,
     \<lparr>tx = 0x492, rx0 = 0x248, rx1 = 0x492\<rparr>,
     \<lparr>tx = 0x252, rx0 = 0x928, rx1 = 0x292\<rparr>,
     \<lparr>tx = 0x94a, rx0 = 0x4a4, rx1 = 0xa52\<rparr>,
     \<lparr>tx = 0x52a, rx0 = 0xaa4, rx1 = 0x54a\<rparr>,
     \<lparr>tx = 0xaaa, rx0 = 0x954, rx1 = 0x4aa\<rparr>,
     \<lparr>tx = 0xaaa, rx0 = 0x554, rx1 = 0xaaa\<rparr>,
     \<lparr>tx = 0x555, rx0 = 0xad4, rx1 = 0x5aa\<rparr>,
     \<lparr>tx = 0xb55, rx0 = 0xab4, rx1 = 0x55a\<rparr>,
     \<lparr>tx = 0x6b5, rx0 = 0x5ac, rx1 = 0xb56\<rparr>,
     \<lparr>tx = 0x5b5, rx0 = 0xd6c, rx1 = 0x6d6\<rparr>,
     \<lparr>tx = 0xb6d, rx0 = 0xb6a, rx1 = 0xdb6\<rparr>,
     \<lparr>tx = 0x76d, rx0 = 0x6da, rx1 = 0xbb6\<rparr>,
     \<lparr>tx = 0xedd, rx0 = 0xdda, rx1 = 0x76e\<rparr>,
     \<lparr>tx = 0xddd, rx0 = 0xbba, rx1 = 0xeee\<rparr>,
     \<lparr>tx = 0x7bb, rx0 = 0xf7a, rx1 = 0xdde\<rparr>,
     \<lparr>tx = 0xf7b, rx0 = 0xef6, rx1 = 0x7de\<rparr>,
     \<lparr>tx = 0xdf7, rx0 = 0xbf6, rx1 = 0xf7e\<rparr>,
     \<lparr>tx = 0x7f7, rx0 = 0xfee, rx1 = 0xefe\<rparr>,
     \<lparr>tx = 0xfdf, rx0 = 0xfbe, rx1 = 0x7fe\<rparr>,
     \<lparr>tx = 0xf7f, rx0 = 0xefe, rx1 = 0xffe\<rparr>,
     \<lparr>tx = 0xfff, rx0 = 0xffe, rx1 = 0xffd\<rparr>]"

text \<open>
  The kernel's \<^verbatim>\<open>clamp(val, lo, hi)\<close> on \<^verbatim>\<open>u32\<close>, which is
  \<^verbatim>\<open>min(max(val, lo), hi)\<close>; the order on words is the unsigned one.
\<close>

definition clamp_u32 :: "u32 \<Rightarrow> u32 \<Rightarrow> u32 \<Rightarrow> u32" where
  "clamp_u32 val lo hi = min (max val lo) hi"

text \<open>
  The two quantities \<^verbatim>\<open>xr_set_baudrate\<close> computes from the clamped baud, in \<^verbatim>\<open>u32\<close>
  arithmetic: \<^verbatim>\<open>divisor = XR_INT_OSC_HZ / baud\<close> and
  \<^verbatim>\<open>idx = ((32 * XR_INT_OSC_HZ) / baud) & 0x1f\<close>.
\<close>

definition baud_divisor :: "u32 \<Rightarrow> u32" where
  "baud_divisor baud = XR_INT_OSC_HZ div baud"

definition baud_idx :: "u32 \<Rightarrow> u32" where
  "baud_idx baud = ((32 * XR_INT_OSC_HZ) div baud) AND 0x1f"

text \<open>
  \<^verbatim>\<open>xr_set_baudrate(tty, port)\<close>: the status, the line settings after the call
  (\<^verbatim>\<open>tty_encode_baud_rate\<close> writes the effective baud back on success) and the world.
\<close>

definition xr_set_baudrate :: "khdr \<Rightarrow> env \<Rightarrow> xr_port_private \<Rightarrow> ktermios \<Rightarrow> world \<Rightarrow> status \<times> ktermios \<times> world" where
  "xr_set_baudrate k e p tty w =
    (let baud = c_ospeed tty
     in if baud = 0 then (OK, tty, w)
        else
          (let baud = clamp_u32 baud MIN_SPEED MAX_SPEED;
               divisor = baud_divisor baud;
               idx = baud_idx baud;
               tx_mask = tx (xr21v141x_txrx_clk_masks ! unat idx);
               rx_mask = (if divisor AND 0x01 \<noteq> 0
                          then rx1 (xr21v141x_txrx_clk_masks ! unat idx)
                          else rx0 (xr21v141x_txrx_clk_masks ! unat idx));
               (ret, w) = xr_set_reg_uart e p CLOCK_DIVISOR_0 (ucast (divisor AND 0xff)) w
           in if ret \<noteq> OK then (ret, tty, w)
              else
          (let (ret, w) = xr_set_reg_uart e p CLOCK_DIVISOR_1
                            (ucast (drop_bit 8 divisor AND 0xff)) w
           in if ret \<noteq> OK then (ret, tty, w)
              else
          (let (ret, w) = xr_set_reg_uart e p CLOCK_DIVISOR_2
                            (ucast (drop_bit 16 divisor AND 0xff)) w
           in if ret \<noteq> OK then (ret, tty, w)
              else
          (let (ret, w) = xr_set_reg_uart e p TX_CLOCK_MASK_0 (ucast (tx_mask AND 0xff)) w
           in if ret \<noteq> OK then (ret, tty, w)
              else
          (let (ret, w) = xr_set_reg_uart e p TX_CLOCK_MASK_1
                            (ucast (drop_bit 8 tx_mask AND 0xff)) w
           in if ret \<noteq> OK then (ret, tty, w)
              else
          (let (ret, w) = xr_set_reg_uart e p RX_CLOCK_MASK_0 (ucast (rx_mask AND 0xff)) w
           in if ret \<noteq> OK then (ret, tty, w)
              else
          (let (ret, w) = xr_set_reg_uart e p RX_CLOCK_MASK_1
                            (ucast (drop_bit 8 rx_mask AND 0xff)) w
           in if ret \<noteq> OK then (ret, tty, w)
              else (OK, tty_encode_baud_rate k tty baud baud, w)))))))))"

subsection \<open>Flow mode and the termios translation\<close>

text \<open>
  \<^verbatim>\<open>xr_set_flow_mode(tty, port, old_termios)\<close>; \<open>None\<close> is a null \<^verbatim>\<open>old_termios\<close>.
  \<^verbatim>\<open>gpio_mode\<close> is a \<^verbatim>\<open>u8\<close>, so \<^verbatim>\<open>gpio_mode |= 0x300\<close> keeps the low eight bits of
  the result.
\<close>

definition xr_set_flow_mode :: "khdr \<Rightarrow> env \<Rightarrow> xr_port_private \<Rightarrow> ktermios \<Rightarrow> ktermios option \<Rightarrow> world \<Rightarrow> world" where
  "xr_set_flow_mode k e p tty old_termios w =
    (let (ret, gpio_mode, w) =
           xr_get_reg_uart e p (word_of_int (xr_hal_table (model p) REG_GPIO_MODE))
             (uninit_gpio_mode e) w
     in if ret \<noteq> OK then w
        else
          (let gpio_mode = gpio_mode AND NOT UART_MODE_GPIO_MASK;
               (gpio_mode, flow, w) =
                 (if C_CRTSCTS k tty \<noteq> 0 \<and> C_BAUD k tty \<noteq> B0 k
                  then (gpio_mode OR UART_MODE_RTS_CTS, UART_FLOW_MODE_HW, w)
                  else if I_IXON k tty \<noteq> 0
                  then
                    (let start_char = START_CHAR k tty;
                         stop_char = STOP_CHAR k tty;
                         flow = UART_FLOW_MODE_SW;
                         (_, w) = xr_set_reg_uart e p
                                    (word_of_int (xr_hal_table (model p) REG_XON_CHAR))
                                    start_char w;
                         (_, w) = xr_set_reg_uart e p
                                    (word_of_int (xr_hal_table (model p) REG_XOFF_CHAR))
                                    stop_char w
                     in (gpio_mode, flow, w))
                  else (gpio_mode, UART_FLOW_MODE_NONE, w));
               gpio_mode = (if model p = XR21B142X
                            then ucast ((ucast gpio_mode :: u32) OR 0x300)
                            else gpio_mode);
               (_, w) = xr_uart_disable e p w;
               (_, w) = xr_set_reg_uart e p
                          (word_of_int (xr_hal_table (model p) REG_FLOW_CTRL)) flow w;
               (_, w) = xr_uart_enable e p w;
               (_, w) = xr_set_reg_uart e p
                          (word_of_int (xr_hal_table (model p) REG_GPIO_MODE)) gpio_mode w
           in if C_BAUD k tty = B0 k then xr_dtr_rts k e p False w
              else if (case old_termios of
                         None \<Rightarrow> False
                       | Some old \<Rightarrow> c_cflag old AND CBAUD k = B0 k)
              then xr_dtr_rts k e p True w
              else w))"

text \<open>
  \<^verbatim>\<open>struct usb_cdc_line_coding\<close> is packed: four bytes of \<^verbatim>\<open>dwDTERate\<close> as they lie
  in memory, then \<^verbatim>\<open>bCharFormat\<close>, \<^verbatim>\<open>bParityType\<close>, \<^verbatim>\<open>bDataBits\<close>.
\<close>

definition le32_bytes :: "u32 \<Rightarrow> u8 list" where
  "le32_bytes x = [ucast x, ucast (drop_bit 8 x), ucast (drop_bit 16 x), ucast (drop_bit 24 x)]"

definition cpu32_bytes :: "khdr \<Rightarrow> u32 \<Rightarrow> u8 list" where
  "cpu32_bytes k x = (if cpu_big_endian k then rev (le32_bytes x) else le32_bytes x)"

text \<open>
  \<^verbatim>\<open>xr_set_termios_cdc(tty, port, old_termios)\<close>. \<^verbatim>\<open>clear\<close> and \<^verbatim>\<open>set\<close> are declared
  without a value and only one of them is assigned before \<^verbatim>\<open>if (clear || set)\<close>; the
  other holds \<open>uninit_clear e\<close> or \<open>uninit_set e\<close>.
\<close>

definition xr_set_termios_cdc :: "khdr \<Rightarrow> env \<Rightarrow> xr_port_private \<Rightarrow> ktermios \<Rightarrow> ktermios option \<Rightarrow> world \<Rightarrow> world" where
  "xr_set_termios_cdc k e p tty old_termios w =
    (let clear_mask = uninit_clear e;
         set_mask = uninit_set e;
         dwDTERate = le32_bytes (tty_get_baud_rate k tty);
         bCharFormat = (if c_cflag tty AND CSTOPB k \<noteq> 0 then 1 else 0 :: u8);
         bParityType = (if c_cflag tty AND PARENB k \<noteq> 0
                        then (if c_cflag tty AND PARODD k \<noteq> 0 then 1 else 2)
                             + (if c_cflag tty AND CMSPAR k \<noteq> 0 then 2 else 0)
                        else 0 :: u8);
         bDataBits = (if C_CSIZE k tty = CS5 k then 5
                      else if C_CSIZE k tty = CS6 k then 6
                      else if C_CSIZE k tty = CS7 k then 7
                      else 8 :: u8);
         (dwDTERate, clear_mask, set_mask) =
           (if tty_get_baud_rate k tty = 0
            then (cpu32_bytes k (c_ospeed tty), ucast UART_MODE_DTR, set_mask)
            else (dwDTERate, clear_mask, ucast UART_MODE_DTR));
         w = (if clear_mask \<noteq> 0 \<or> set_mask \<noteq> 0
              then snd (xr_tiocmset_port k e p set_mask clear_mask w) else w);
         w = xr_set_flow_mode k e p tty old_termios w
     in snd (xr_usb_serial_ctrl_msg e p (uint USB_CDC_REQ_SET_LINE_CODING) 0
               (dwDTERate @ [bCharFormat, bParityType, bDataBits]) w))"

text \<open>
  \<^verbatim>\<open>xr_set_termios_format_reg(tty, port, old_termios)\<close>: the line settings after the
  call (the baud echo and the restored character size) and the world.
\<close>

definition xr_set_termios_format_reg :: "khdr \<Rightarrow> env \<Rightarrow> xr_port_private \<Rightarrow> ktermios \<Rightarrow> ktermios option \<Rightarrow> world \<Rightarrow> ktermios \<times> world" where
  "xr_set_termios_format_reg k e p tty old_termios w =
    (let bits = (0 :: u8);
         (tty, w) =
           (if (case old_termios of
                  None \<Rightarrow> True
                | Some old \<Rightarrow> c_ospeed tty \<noteq> c_ospeed old)
            then snd (xr_set_baudrate k e p tty w)
            else (tty, w));
         (tty, bits) =
           (if C_CSIZE k tty = CS5 k \<or> C_CSIZE k tty = CS6 k
            then
              (let tty = tty\<lparr>c_cflag := c_cflag tty AND NOT (CSIZE k)\<rparr>
               in case old_termios of
                    Some old \<Rightarrow> (tty\<lparr>c_cflag := c_cflag tty OR (c_cflag old AND CSIZE k)\<rparr>, bits)
                  | None \<Rightarrow> (tty, bits OR UART_DATA_8))
            else if C_CSIZE k tty = CS7 k then (tty, bits OR UART_DATA_7)
            else (tty, bits OR UART_DATA_8));
         bits = (if C_PARENB k tty \<noteq> 0
                 then (if C_CMSPAR k tty \<noteq> 0
                       then (if C_PARODD k tty \<noteq> 0 then bits OR UART_PARITY_MARK
                             else bits OR UART_PARITY_SPACE)
                       else (if C_PARODD k tty \<noteq> 0 then bits OR UART_PARITY_ODD
                             else bits OR UART_PARITY_EVEN))
                 else bits);
         bits = (if C_CSTOPB k tty \<noteq> 0 then bits OR UART_STOP_2 else bits OR UART_STOP_1);
         (_, w) = xr_set_reg_uart e p (word_of_int (xr_hal_table (model p) REG_FORMAT)) bits w
     in (tty, xr_set_flow_mode k e p tty old_termios w))"

definition xr_set_termios :: "khdr \<Rightarrow> env \<Rightarrow> xr_port_private \<Rightarrow> ktermios \<Rightarrow> ktermios option \<Rightarrow> world \<Rightarrow> ktermios \<times> world" where
  "xr_set_termios k e p tty old_termios w =
    (if xr_hal_table (model p) REG_FORMAT = VIA_CDC_REGISTER
     then (tty, xr_set_termios_cdc k e p tty old_termios w)
     else xr_set_termios_format_reg k e p tty old_termios w)"

section \<open>Notions used in the statements\<close>

subsection \<open>Transfers on the wire\<close>

text \<open>
  The register byte that reaches \<^verbatim>\<open>wIndex\<close>: the result of the channel arithmetic in
  the \<^verbatim>\<open>switch\<close> of \<^verbatim>\<open>xr_set_reg\<close> and \<^verbatim>\<open>xr_get_reg\<close> for the four chips.
\<close>

definition channel_reg :: "xr_port_private \<Rightarrow> u8 \<Rightarrow> u8" where
  "channel_reg p reg =
    (case model p of
       XR21V141X \<Rightarrow>
         (if channel p \<noteq> 0 then ucast ((ucast reg :: u32) OR push_bit 8 (channel p - 1)) else reg)
     | XR21B142X \<Rightarrow> ucast ((ucast reg :: u32) OR push_bit 1 (channel p - 4))
     | _ \<Rightarrow> reg)"

text \<open>The control transfer that a write, and a read, of a register puts on the wire.\<close>

definition set_reg_xfer :: "xr_port_private \<Rightarrow> u8 \<Rightarrow> u8 \<Rightarrow> u8 \<Rightarrow> xfer" where
  "set_reg_xfer p block reg val =
    \<lparr>pipe = Snd_Ctrl,
     bRequest = word_of_int (xr_hal_table (model p) REQ_SET),
     bmRequestType = 0x40,
     wValue = ucast val,
     wIndex = ucast ((ucast (channel_reg p reg) :: u32) OR push_bit 8 (ucast block :: u32)),
     wLength = 0,
     payload = []\<rparr>"

definition get_reg_xfer :: "xr_port_private \<Rightarrow> u8 \<Rightarrow> u8 \<Rightarrow> xfer" where
  "get_reg_xfer p block reg =
    \<lparr>pipe = Rcv_Ctrl,
     bRequest = word_of_int (xr_hal_table (model p) REQ_GET),
     bmRequestType = 0xC0,
     wValue = 0,
     wIndex = ucast ((ucast (channel_reg p reg) :: u32) OR push_bit 8 (ucast block :: u32)),
     wLength = 1,
     payload = []\<rparr>"

text \<open>
  The \<^verbatim>\<open>SET_LINE_CODING\<close> class request as \<^verbatim>\<open>xr_usb_serial_ctrl_msg\<close> puts it on the
  wire for a buffer \<open>buf\<close>.
\<close>

definition set_line_coding_xfer :: "xr_port_private \<Rightarrow> u8 list \<Rightarrow> xfer" where
  "set_line_coding_xfer p buf =
    \<lparr>pipe = Rcv_Ctrl,
     bRequest = 0x20,
     bmRequestType = 0x21,
     wValue = 0,
     wIndex = ucast (bInterfaceNumber (control_if p)),
     wLength = of_nat (length buf),
     payload = buf\<rparr>"

text \<open>The status a register write makes of the transport's return value.\<close>

definition usb_status :: "int \<Rightarrow> status" where
  "usb_status ret = (if ret < 0 then Inl (EUSB ret) else OK)"

text \<open>A register address of the table as the \<^verbatim>\<open>u8\<close> parameter \<^verbatim>\<open>reg\<close> receives it.\<close>

definition hal_reg :: "xr_port_private \<Rightarrow> xr_hal_type \<Rightarrow> u8" where
  "hal_reg p t = word_of_int (xr_hal_table (model p) t)"

text \<open>The transfers attempted between two worlds.\<close>

definition emitted :: "world \<Rightarrow> world \<Rightarrow> xfer list" where
  "emitted w w' = drop (length (xfers w)) (xfers w')"

text \<open>Vendor register writes and vendor register reads among the transfers.\<close>

definition is_reg_write :: "xfer \<Rightarrow> bool" where
  "is_reg_write x \<longleftrightarrow> pipe x = Snd_Ctrl \<and> bmRequestType x = 0x40"

definition is_reg_read :: "xfer \<Rightarrow> bool" where
  "is_reg_read x \<longleftrightarrow> pipe x = Rcv_Ctrl \<and> bmRequestType x = 0xC0"

subsection \<open>The specification's formulas\<close>

text \<open>
  The \<^verbatim>\<open>wIndex\<close> that section 8 of the specification states for channel \<open>c\<close> on
  XR21V141X: \<^verbatim>\<open>(block << 8) | R | ((c - 1) << 8)\<close>.
\<close>

definition spec_wIndex_XR21V141X :: "u8 \<Rightarrow> u8 \<Rightarrow> u32 \<Rightarrow> u16" where
  "spec_wIndex_XR21V141X block reg c =
    push_bit 8 (ucast block) OR ucast reg OR push_bit 8 (ucast (c - 1))"

text \<open>
  Section 4.4 of the specification in unbounded arithmetic: the seven (register, byte)
  pairs that the baud-rate engine writes for a requested non-zero baud.
\<close>

definition spec_baud_writes :: "nat \<Rightarrow> (u8 \<times> u8) list" where
  "spec_baud_writes requested =
    (let baud = max 46 (min 48000000 requested);
         divisor = 48000000 div baud;
         idx = ((32 * 48000000) div baud) mod 32;
         tx_mask = unat (tx (xr21v141x_txrx_clk_masks ! idx));
         rx_mask = unat (if odd divisor then rx1 (xr21v141x_txrx_clk_masks ! idx)
                         else rx0 (xr21v141x_txrx_clk_masks ! idx))
     in [(0x04, of_nat (divisor mod 256)),
         (0x05, of_nat (divisor div 256 mod 256)),
         (0x06, of_nat (divisor div 65536 mod 256)),
         (0x07, of_nat (tx_mask mod 256)),
         (0x08, of_nat (tx_mask div 256 mod 256)),
         (0x09, of_nat (rx_mask mod 256)),
         (0x0a, of_nat (rx_mask div 256 mod 256))])"

text \<open>
  Writing a list of (register, byte) pairs to the UART block in order, aborting at the
  first failed write.
\<close>

fun write_regs :: "env \<Rightarrow> xr_port_private \<Rightarrow> (u8 \<times> u8) list \<Rightarrow> world \<Rightarrow> status \<times> world" where
  "write_regs e p [] w = (OK, w)"
| "write_regs e p ((reg, val) # rs) w =
    (case xr_set_reg_uart e p reg val w of
       (Inl er, w') \<Rightarrow> (Inl er, w')
     | (Inr _, w') \<Rightarrow> write_regs e p rs w')"

subsection \<open>Sample inputs\<close>

text \<open>
  A transport on which every transfer succeeds (a read returns one byte, \<open>0x05\<close>), one
  on which the second transfer times out, and one whose allocator fails.
\<close>

definition env_ok :: env where
  "env_ok = \<lparr>usb_ret = (\<lambda>n. 1), usb_in = (\<lambda>n. 0x05), kmalloc_ok = (\<lambda>n. True),
             uninit_state = 0, uninit_set = 0, uninit_clear = 0, uninit_gpio_mode = 0\<rparr>"

definition env_timeout1 :: env where
  "env_timeout1 = \<lparr>usb_ret = (\<lambda>n. if n = 1 then - 110 else 0), usb_in = (\<lambda>n. 0x05),
                   kmalloc_ok = (\<lambda>n. True),
                   uninit_state = 0, uninit_set = 0, uninit_clear = 0, uninit_gpio_mode = 0\<rparr>"

definition env_timeout0 :: env where
  "env_timeout0 = \<lparr>usb_ret = (\<lambda>n. if n = 0 then - 110 else 0), usb_in = (\<lambda>n. 0x05),
                   kmalloc_ok = (\<lambda>n. True),
                   uninit_state = 0, uninit_set = 0, uninit_clear = 0, uninit_gpio_mode = 0\<rparr>"

text \<open>The first transfer times out and only the first allocation succeeds.\<close>

definition env_timeout0_nomem :: env where
  "env_timeout0_nomem = \<lparr>usb_ret = (\<lambda>n. if n = 0 then - 110 else 0), usb_in = (\<lambda>n. 0x05),
                         kmalloc_ok = (\<lambda>n. n = 0),
                         uninit_state = 0, uninit_set = 0, uninit_clear = 0,
                         uninit_gpio_mode = 0\<rparr>"

definition world0 :: world where
  "world0 = \<lparr>xfers = [], allocs = 0\<rparr>"

definition port_XR21V141X :: "u32 \<Rightarrow> xr_port_private" where
  "port_XR21V141X c = \<lparr>model = XR21V141X, channel = c, control_if = \<lparr>bInterfaceNumber = 0\<rparr>\<rparr>"

definition port_XR2280X :: xr_port_private where
  "port_XR2280X = \<lparr>model = XR2280X, channel = 1, control_if = \<lparr>bInterfaceNumber = 0\<rparr>\<rparr>"

definition port_XR21B1411 :: xr_port_private where
  "port_XR21B1411 = \<lparr>model = XR21B1411, channel = 1, control_if = \<lparr>bInterfaceNumber = 0\<rparr>\<rparr>"

text \<open>
  The header constants of the generic Linux ABI on a little-endian host, with
  \<^verbatim>\<open>tty_get_baud_rate\<close> reading \<^verbatim>\<open>c_ospeed\<close> and \<^verbatim>\<open>tty_encode_baud_rate\<close> storing
  the output speed.
\<close>

definition khdr_generic :: khdr where
  "khdr_generic =
    \<lparr>TIOCM_DTR = 0x002, TIOCM_RTS = 0x004, CBAUD = 0x100f, B0 = 0, CRTSCTS = 0x80000000,
     CSIZE = 0x30, CS5 = 0x00, CS6 = 0x10, CS7 = 0x20, CS8 = 0x30, CSTOPB = 0x40,
     PARENB = 0x100, PARODD = 0x200, CMSPAR = 0x40000000, IXON = 0x400,
     VSTART = 8, VSTOP = 9, cpu_big_endian = False,
     tty_get_baud_rate = c_ospeed,
     tty_encode_baud_rate = (\<lambda>tty ibaud obaud. tty\<lparr>c_ospeed := obaud\<rparr>)\<rparr>"

text \<open>
  115200 baud (\<^verbatim>\<open>B115200 = 0x1002\<close>), eight data bits, no parity, one stop bit, no flow
  control; and the same line hung up (\<^verbatim>\<open>B0\<close>, speed 0).
\<close>

definition tty_115200_8n1 :: ktermios where
  "tty_115200_8n1 =
    \<lparr>c_iflag = 0, c_cflag = 0x1032, c_cc = (\<lambda>n. if n = 8 then 0x11 else 0x13),
     c_ospeed = 115200\<rparr>"

definition tty_hangup :: ktermios where
  "tty_hangup =
    \<lparr>c_iflag = 0, c_cflag = 0x0030, c_cc = (\<lambda>n. if n = 8 then 0x11 else 0x13),
     c_ospeed = 0\<rparr>"

subsection \<open>Runs that only write registers\<close>

text \<open>
  The second world continues the first by vendor register writes only (possibly none),
  with no allocation in between.
\<close>

definition grows_by_writes :: "world \<Rightarrow> world \<Rightarrow> bool" where
  "grows_by_writes w w' \<longleftrightarrow>
     take (length (xfers w)) (xfers w') = xfers w
     \<and> length (xfers w) \<le> length (xfers w')
     \<and> list_all is_reg_write (emitted w w')
     \<and> allocs w' = allocs w"

text \<open>
  A list of transfers that is empty, or one register read followed by register writes
  only, and by none when the read, the \<open>n\<close>-th transfer, did not return one byte.
\<close>

definition read_then_writes :: "env \<Rightarrow> nat \<Rightarrow> xfer list \<Rightarrow> bool" where
  "read_then_writes e n F \<longleftrightarrow>
     (case F of
        [] \<Rightarrow> True
      | rd # rest \<Rightarrow>
          is_reg_read rd \<and> list_all is_reg_write rest \<and> (usb_ret e n = 1 \<or> rest = []))"

text \<open>Transfers that are neither register writes nor register reads.\<close>

definition is_class_xfer :: "xfer \<Rightarrow> bool" where
  "is_class_xfer x \<longleftrightarrow> \<not> is_reg_write x \<and> \<not> is_reg_read x"

section \<open>Register access layer\<close>

lemma xr_set_reg_run:
  "model p \<noteq> MAX_XR_MODELS \<Longrightarrow>
   xr_set_reg e p block reg val w =
     (usb_status (usb_ret e (length (xfers w))),
      w\<lparr>xfers := xfers w @ [set_reg_xfer p block reg val]\<rparr>)"
  by (cases "model p")
     (simp_all add: xr_set_reg_def usb_control_msg_def set_reg_xfer_def channel_reg_def
        usb_status_def USB_DIR_OUT_def USB_TYPE_VENDOR_def USB_RECIP_DEVICE_def)

lemma xr_set_reg_invalid:
  "model p = MAX_XR_MODELS \<Longrightarrow> xr_set_reg e p block reg val w = (Inl EINVAL, w)"
  by (simp add: xr_set_reg_def)

text \<open>
  On XR21V141X the channel term \<^verbatim>\<open>(channel - 1) << 8\<close> has no bit below bit 8, so the
  \<^verbatim>\<open>u8\<close> register keeps its value whatever the channel is.
\<close>

lemma channel_reg_XR21V141X: "model p = XR21V141X \<Longrightarrow> channel_reg p reg = reg"
  apply (simp add: channel_reg_def)
  apply (rule impI)
  apply (rule bit_word_eqI)
  apply (simp add: bit_simps)
  done

lemma xr_get_reg_cases:
  "xr_get_reg e p block reg val w = (ret, val', w') \<Longrightarrow>
     (ret = OK \<and> val' = usb_in e (length (xfers w))) \<or> (isl ret \<and> val' = val)"
  by (cases "model p")
     (auto simp: xr_get_reg_def kmalloc_def usb_control_msg_def Let_def split: if_splits)

text \<open>
  C1, evaluated on XR21V141X at channel 2, block 0, register \<open>0x03\<close>: the one transfer
  that \<^verbatim>\<open>xr_set_reg\<close> issues carries \<^verbatim>\<open>wIndex = 0x0003\<close>, where the formula
  \<^verbatim>\<open>(block << 8) | R | ((c - 1) << 8)\<close> of the specification gives \<open>0x0103\<close>. The
  channel term is lost when it is OR-ed into the \<^verbatim>\<open>u8\<close> register.
\<close>

theorem xr_set_reg_XR21V141X_channel2:
  "xfers (snd (xr_set_reg e (port_XR21V141X 2) 0 0x03 0x03 w)) =
     xfers w @ [\<lparr>pipe = Snd_Ctrl, bRequest = 0, bmRequestType = 0x40, wValue = 0x0003,
                 wIndex = 0x0003, wLength = 0, payload = []\<rparr>]
   \<and> spec_wIndex_XR21V141X 0 0x03 2 = 0x0103"
  by (simp add: xr_set_reg_def usb_control_msg_def port_XR21V141X_def xr_hal_table_def
      spec_wIndex_XR21V141X_def USB_DIR_OUT_def USB_TYPE_VENDOR_def USB_RECIP_DEVICE_def)

text \<open>
  On XR21V141X the \<^verbatim>\<open>wIndex\<close> of a register write is \<^verbatim>\<open>(block << 8) | R\<close> for every
  channel.
\<close>

lemma xr_set_reg_XR21V141X_wIndex:
  "model p = XR21V141X \<Longrightarrow>
   emitted w (snd (xr_set_reg e p block reg val w)) = [set_reg_xfer p block reg val]
   \<and> wIndex (set_reg_xfer p block reg val)
       = ucast ((ucast reg :: u32) OR push_bit 8 (ucast block :: u32))"
  by (simp add: xr_set_reg_run emitted_def set_reg_xfer_def channel_reg_XR21V141X)

text \<open>
  C8: on every error return of \<^verbatim>\<open>xr_get_reg\<close> the byte behind \<^verbatim>\<open>val\<close> is the one
  it held at the call; it changes only on a successful return, to the byte the device
  sent.
\<close>

theorem xr_get_reg_val_kept_on_error:
  "(fst (xr_get_reg e p block reg val w) \<noteq> OK \<longrightarrow>
      fst (snd (xr_get_reg e p block reg val w)) = val)
   \<and> (fst (snd (xr_get_reg e p block reg val w)) \<noteq> val \<longrightarrow>
      fst (xr_get_reg e p block reg val w) = OK)
   \<and> (fst (xr_get_reg e p block reg val w) = OK \<longrightarrow>
      fst (snd (xr_get_reg e p block reg val w)) = usb_in e (length (xfers w)))"
proof -
  obtain ret val' w' where r: "xr_get_reg e p block reg val w = (ret, val', w')"
    by (cases "xr_get_reg e p block reg val w") auto
  from xr_get_reg_cases [OF r] show ?thesis
    by (auto simp: r)
qed

theorem xr_get_reg_val_kept_on_error_witness:
  "fst (xr_get_reg env_timeout0 port_XR2280X 0 0x4c 0x77 world0) = Inl (EUSB (- 110))
   \<and> fst (xr_get_reg env_timeout0 port_XR2280X 0 0x4c 0x77 world0) \<noteq> OK
   \<and> fst (snd (xr_get_reg env_timeout0 port_XR2280X 0 0x4c 0x77 world0)) = 0x77
   \<and> fst (xr_get_reg env_ok port_XR2280X 0 0x4c 0x77 world0) = OK
   \<and> fst (snd (xr_get_reg env_ok port_XR2280X 0 0x4c 0x77 world0)) \<noteq> 0x77
   \<and> fst (snd (xr_get_reg env_ok port_XR2280X 0 0x4c 0x77 world0)) = usb_in env_ok 0"
  using xr_get_reg_val_kept_on_error [of env_timeout0 port_XR2280X 0 "0x4c" "0x77" world0]
    xr_get_reg_val_kept_on_error [of env_ok port_XR2280X 0 "0x4c" "0x77" world0]
  by (simp add: xr_get_reg_def kmalloc_def usb_control_msg_def env_timeout0_def env_ok_def
      port_XR2280X_def world0_def)

section \<open>Baud-rate engine\<close>

lemma unat_clamp:
  "unat (clamp_u32 b MIN_SPEED MAX_SPEED) = max 46 (min 48000000 (unat b))"
  by (simp add: clamp_u32_def MIN_SPEED_def MAX_SPEED_def XR_INT_OSC_HZ_def min_def max_def
      word_le_nat_alt word_less_nat_alt not_le)

lemma clamp_in_range:
  "MIN_SPEED \<le> b \<Longrightarrow> b \<le> MAX_SPEED \<Longrightarrow> clamp_u32 b MIN_SPEED MAX_SPEED = b"
  by (simp add: clamp_u32_def min_def max_def)

lemma unat_baud_divisor: "unat (baud_divisor b) = 48000000 div unat b"
  by (simp add: baud_divisor_def XR_INT_OSC_HZ_def unat_div)

lemma unat_baud_idx: "unat (baud_idx b) = (1536000000 div unat b) mod 32"
proof -
  have "baud_idx b = take_bit 5 ((32 * XR_INT_OSC_HZ) div b)"
    by (simp add: baud_idx_def take_bit_eq_mask mask_eq_exp_minus_1)
  then show ?thesis
    by (simp add: XR_INT_OSC_HZ_def unat_div unat_mod take_bit_eq_mod)
qed

lemma odd_divisor: "(d AND 0x01 \<noteq> 0) = odd (unat (d :: u32))"
proof -
  have "odd (unat d) = bit (unat d) 0" by (simp add: bit_0)
  also have "\<dots> = bit d 0" by (simp add: bit_unsigned_iff)
  also have "\<dots> = odd d" by (simp add: bit_0)
  finally have "odd (unat d) = odd d" .
  then show ?thesis by (simp add: and_one_eq even_iff_mod_2_eq_zero)
qed

lemma low_byte: "(ucast ((d :: 'a :: len word) AND 0xff) :: u8) = of_nat (unat d mod 256)"
proof -
  have "d AND 0xff = take_bit 8 d"
    by (simp add: take_bit_eq_mask mask_eq_exp_minus_1)
  moreover have "(ucast (take_bit 8 d) :: u8) = ucast d"
    by (rule bit_word_eqI) (simp add: bit_simps)
  moreover have "(of_nat (unat d mod 256) :: u8) = of_nat (unat d)"
    by (simp only: word_of_nat_eq_iff) (simp add: take_bit_eq_mod)
  ultimately show ?thesis by simp
qed

text \<open>
  C10: \<^verbatim>\<open>32 * XR_INT_OSC_HZ\<close> is 1536000000, below \<open>2 ^ 32\<close>, so the 32-bit product
  and quotient of the index computation are the exact ones for every baud of at least 1.
\<close>

theorem baud_idx_no_overflow:
  "1 \<le> baud \<Longrightarrow>
   unat (32 * XR_INT_OSC_HZ) = 32 * 48000000
   \<and> (32 * 48000000 :: nat) < 2 ^ 32
   \<and> unat ((32 * XR_INT_OSC_HZ) div baud) = (32 * 48000000) div unat baud
   \<and> unat (baud_idx baud) = ((32 * 48000000) div unat baud) mod 32"
  by (simp add: unat_baud_idx unat_div XR_INT_OSC_HZ_def)

theorem baud_idx_no_overflow_witness:
  "(1 :: u32) \<le> 115200
   \<and> unat (32 * XR_INT_OSC_HZ) = 32 * 48000000
   \<and> unat ((32 * XR_INT_OSC_HZ) div 115200) = 13333
   \<and> unat (baud_idx 115200) = 21"
  using baud_idx_no_overflow [of 115200] by simp

text \<open>
  C7, evaluated at the lower end of the clamped range: for baud 46 the divisor is
  1043478, which is not below \<open>2 ^ 19 = 524288\<close>, and the byte written to
  \<^verbatim>\<open>CLOCK_DIVISOR_2\<close> is \<open>0x0f\<close>.
\<close>

theorem baud_divisor_at_46:
  "clamp_u32 46 MIN_SPEED MAX_SPEED = 46
   \<and> unat (baud_divisor (clamp_u32 46 MIN_SPEED MAX_SPEED)) = 1043478
   \<and> \<not> unat (baud_divisor (clamp_u32 46 MIN_SPEED MAX_SPEED)) < 2 ^ 19
   \<and> (ucast (drop_bit 16 (baud_divisor (clamp_u32 46 MIN_SPEED MAX_SPEED)) AND 0xff) :: u8) = 0x0f"
  by (simp add: clamp_u32_def MIN_SPEED_def MAX_SPEED_def baud_divisor_def XR_INT_OSC_HZ_def)

text \<open>Over the whole clamped range the divisor fits in 20 bits.\<close>

lemma baud_divisor_lt_2p20:
  "unat (baud_divisor (clamp_u32 b MIN_SPEED MAX_SPEED)) < 2 ^ 20"
proof -
  have "46 \<le> unat (clamp_u32 b MIN_SPEED MAX_SPEED)"
    by (simp add: unat_clamp)
  then have "48000000 div unat (clamp_u32 b MIN_SPEED MAX_SPEED) \<le> 48000000 div 46"
    by (intro div_le_mono2) simp_all
  then show ?thesis by (simp add: unat_baud_divisor)
qed

text \<open>
  C2 as stated fails: at the requested baud 9600, which lies in the clamped range, the
  quotient \<open>1536000000 / 9600 = 160000\<close> is a multiple of 32 and the index is 0. It is 0
  at 48000000 too, and 1 at 46545454.
\<close>

theorem baud_idx_at_9600:
  "MIN_SPEED \<le> 9600 \<and> 9600 \<le> MAX_SPEED
   \<and> baud_idx (clamp_u32 9600 MIN_SPEED MAX_SPEED) = 0
   \<and> \<not> 2 \<le> baud_idx (clamp_u32 9600 MIN_SPEED MAX_SPEED)
   \<and> baud_idx (clamp_u32 48000000 MIN_SPEED MAX_SPEED) = 0
   \<and> baud_idx (clamp_u32 46545454 MIN_SPEED MAX_SPEED) = 1"
  by (simp add: clamp_u32_def MIN_SPEED_def MAX_SPEED_def baud_idx_def XR_INT_OSC_HZ_def)

lemma clk_masks_length: "length xr21v141x_txrx_clk_masks = 32"
  by (simp add: xr21v141x_txrx_clk_masks_def)

lemma clk_masks_placeholders:
  "i < 2 \<Longrightarrow> xr21v141x_txrx_clk_masks ! i = \<lparr>tx = 0, rx0 = 0, rx1 = 0\<rparr>"
proof -
  assume "i < 2"
  then have "i = 0 \<or> i = 1" by arith
  then show ?thesis by (auto simp: xr21v141x_txrx_clk_masks_def)
qed

text \<open>
  C2 as amended: for every requested baud \<open>b\<close> in \<open>[46, 48000000]\<close> the index is
  \<open>\<lfloor>1536000000 / b\<rfloor> mod 32\<close>, it addresses one of the 32 entries of the clock-mask
  table, and when it is 0 or 1 the entry selected is an all-zero one.
\<close>

theorem baud_idx_in_table:
  "MIN_SPEED \<le> b \<Longrightarrow> b \<le> MAX_SPEED \<Longrightarrow>
   unat (baud_idx (clamp_u32 b MIN_SPEED MAX_SPEED)) = (1536000000 div unat b) mod 32
   \<and> unat (baud_idx (clamp_u32 b MIN_SPEED MAX_SPEED)) < length xr21v141x_txrx_clk_masks
   \<and> (unat (baud_idx (clamp_u32 b MIN_SPEED MAX_SPEED)) < 2 \<longrightarrow>
        xr21v141x_txrx_clk_masks ! unat (baud_idx (clamp_u32 b MIN_SPEED MAX_SPEED))
          = \<lparr>tx = 0, rx0 = 0, rx1 = 0\<rparr>)"
  by (simp add: clamp_in_range unat_baud_idx clk_masks_length clk_masks_placeholders)

theorem baud_idx_in_table_witness:
  "MIN_SPEED \<le> 115200 \<and> 115200 \<le> MAX_SPEED
   \<and> unat (baud_idx (clamp_u32 115200 MIN_SPEED MAX_SPEED)) = 21
   \<and> unat (baud_idx (clamp_u32 115200 MIN_SPEED MAX_SPEED)) < length xr21v141x_txrx_clk_masks
   \<and> MIN_SPEED \<le> 48000000 \<and> 48000000 \<le> MAX_SPEED
   \<and> unat (baud_idx (clamp_u32 48000000 MIN_SPEED MAX_SPEED)) < 2
   \<and> xr21v141x_txrx_clk_masks ! unat (baud_idx (clamp_u32 48000000 MIN_SPEED MAX_SPEED))
        = \<lparr>tx = 0, rx0 = 0, rx1 = 0\<rparr>"
  using baud_idx_in_table [of 115200] baud_idx_in_table [of 48000000]
  by (simp add: MIN_SPEED_def MAX_SPEED_def XR_INT_OSC_HZ_def clk_masks_placeholders)

lemma write_regs_step:
  "write_regs e p ((reg, val) # rs) w =
    (let r = xr_set_reg_uart e p reg val w
     in if fst r \<noteq> OK then r else write_regs e p rs (snd r))"
  by (cases "xr_set_reg_uart e p reg val w"; cases "fst (xr_set_reg_uart e p reg val w)"; simp)

lemma xr_set_baudrate_writes:
  "c_ospeed tty \<noteq> 0 \<Longrightarrow>
   (fst (xr_set_baudrate k e p tty w), snd (snd (xr_set_baudrate k e p tty w))) =
    write_regs e p
      (let baud = clamp_u32 (c_ospeed tty) MIN_SPEED MAX_SPEED;
           divisor = baud_divisor baud;
           idx = baud_idx baud;
           tx_mask = tx (xr21v141x_txrx_clk_masks ! unat idx);
           rx_mask = (if divisor AND 0x01 \<noteq> 0
                      then rx1 (xr21v141x_txrx_clk_masks ! unat idx)
                      else rx0 (xr21v141x_txrx_clk_masks ! unat idx))
       in [(CLOCK_DIVISOR_0, ucast (divisor AND 0xff)),
           (CLOCK_DIVISOR_1, ucast (drop_bit 8 divisor AND 0xff)),
           (CLOCK_DIVISOR_2, ucast (drop_bit 16 divisor AND 0xff)),
           (TX_CLOCK_MASK_0, ucast (tx_mask AND 0xff)),
           (TX_CLOCK_MASK_1, ucast (drop_bit 8 tx_mask AND 0xff)),
           (RX_CLOCK_MASK_0, ucast (rx_mask AND 0xff)),
           (RX_CLOCK_MASK_1, ucast (drop_bit 8 rx_mask AND 0xff))]) w"
  by (simp add: xr_set_baudrate_def Let_def case_prod_beta write_regs_step del: write_regs.simps(2))

lemma baud_writes_eq_spec:
  "(let baud = clamp_u32 b MIN_SPEED MAX_SPEED;
        divisor = baud_divisor baud;
        idx = baud_idx baud;
        tx_mask = tx (xr21v141x_txrx_clk_masks ! unat idx);
        rx_mask = (if divisor AND 0x01 \<noteq> 0
                   then rx1 (xr21v141x_txrx_clk_masks ! unat idx)
                   else rx0 (xr21v141x_txrx_clk_masks ! unat idx))
    in [(CLOCK_DIVISOR_0, ucast (divisor AND 0xff)),
        (CLOCK_DIVISOR_1, ucast (drop_bit 8 divisor AND 0xff)),
        (CLOCK_DIVISOR_2, ucast (drop_bit 16 divisor AND 0xff)),
        (TX_CLOCK_MASK_0, ucast (tx_mask AND 0xff)),
        (TX_CLOCK_MASK_1, ucast (drop_bit 8 tx_mask AND 0xff)),
        (RX_CLOCK_MASK_0, ucast (rx_mask AND 0xff)),
        (RX_CLOCK_MASK_1, ucast (drop_bit 8 rx_mask AND 0xff))])
   = spec_baud_writes (unat b)"
  by (simp add: spec_baud_writes_def Let_def low_byte odd_divisor drop_bit_eq_div unat_div
      unat_baud_divisor unat_baud_idx unat_clamp
      CLOCK_DIVISOR_0_def CLOCK_DIVISOR_1_def CLOCK_DIVISOR_2_def TX_CLOCK_MASK_0_def
      TX_CLOCK_MASK_1_def RX_CLOCK_MASK_0_def RX_CLOCK_MASK_1_def)

text \<open>
  C5: with a requested baud of 0 the engine returns success and leaves the world (and the
  line settings) as they were; with any other baud its status and its transfers are
  those of writing, in order and up to the first failed write, the seven bytes that the
  specification computes from the clamped baud to the UART registers \<open>0x04\<close> to
  \<open>0x0a\<close>.
\<close>

theorem xr_set_baudrate_spec:
  "(c_ospeed tty = 0 \<longrightarrow> xr_set_baudrate k e p tty w = (OK, tty, w))
   \<and> (c_ospeed tty \<noteq> 0 \<longrightarrow>
        (fst (xr_set_baudrate k e p tty w), snd (snd (xr_set_baudrate k e p tty w)))
          = write_regs e p (spec_baud_writes (unat (c_ospeed tty))) w)"
proof (intro conjI impI)
  assume "c_ospeed tty = 0"
  then show "xr_set_baudrate k e p tty w = (OK, tty, w)"
    by (simp add: xr_set_baudrate_def)
next
  assume nz: "c_ospeed tty \<noteq> 0"
  show "(fst (xr_set_baudrate k e p tty w), snd (snd (xr_set_baudrate k e p tty w)))
      = write_regs e p (spec_baud_writes (unat (c_ospeed tty))) w"
    by (simp only: xr_set_baudrate_writes [OF nz] baud_writes_eq_spec)
qed

theorem xr_set_baudrate_spec_witness:
  "c_ospeed tty_hangup = 0
   \<and> xr_set_baudrate khdr_generic env_ok (port_XR21V141X 1) tty_hangup world0
        = (OK, tty_hangup, world0)
   \<and> c_ospeed tty_115200_8n1 \<noteq> 0
   \<and> fst (xr_set_baudrate khdr_generic env_ok (port_XR21V141X 1) tty_115200_8n1 world0) = OK
   \<and> map (\<lambda>x. (wIndex x, wValue x))
        (xfers (snd (snd (xr_set_baudrate khdr_generic env_ok (port_XR21V141X 1)
                            tty_115200_8n1 world0))))
        = [(0x04, 0xa0), (0x05, 0x01), (0x06, 0x00), (0x07, 0x6d), (0x08, 0x0b),
           (0x09, 0x6a), (0x0a, 0x0b)]
   \<and> fst (xr_set_baudrate khdr_generic env_timeout1 (port_XR21V141X 1) tty_115200_8n1 world0)
        = Inl (EUSB (- 110))
   \<and> map (\<lambda>x. (wIndex x, wValue x))
        (xfers (snd (snd (xr_set_baudrate khdr_generic env_timeout1 (port_XR21V141X 1)
                            tty_115200_8n1 world0))))
        = [(0x04, 0xa0), (0x05, 0x01)]"
  using xr_set_baudrate_spec [of tty_hangup khdr_generic env_ok "port_XR21V141X 1" world0]
    xr_set_baudrate_spec [of tty_115200_8n1 khdr_generic env_ok "port_XR21V141X 1" world0]
    xr_set_baudrate_spec [of tty_115200_8n1 khdr_generic env_timeout1 "port_XR21V141X 1" world0]
  by (simp add: tty_hangup_def tty_115200_8n1_def spec_baud_writes_def
      xr21v141x_txrx_clk_masks_def xr_set_reg_uart_def xr_set_reg_run set_reg_xfer_def
      channel_reg_XR21V141X usb_status_def port_XR21V141X_def env_ok_def env_timeout1_def
      world0_def UART_REG_BLOCK_def prod_eq_iff)

section \<open>Modem-control lines\<close>

lemma or_and_absorb: "(s AND (d OR r)) AND r = s AND (r :: 'a :: len word)"
  by (rule bit_word_eqI) (auto simp: bit_simps)

lemma or_and_absorb2: "(s AND (d OR r)) AND d = s AND (d :: 'a :: len word)"
  by (rule bit_word_eqI) (auto simp: bit_simps)

lemma and_or_zero:
  "s AND (d OR r) = 0 \<Longrightarrow> s AND d = 0 \<and> s AND (r :: 'a :: len word) = 0"
  by (metis or_and_absorb or_and_absorb2 and_zero_eq and.commute)

lemma xr_set_reg_uart_run:
  "model p \<noteq> MAX_XR_MODELS \<Longrightarrow>
   xr_set_reg_uart e p reg val w =
     (usb_status (usb_ret e (length (xfers w))),
      w\<lparr>xfers := xfers w @ [set_reg_xfer p UART_REG_BLOCK reg val]\<rparr>)"
  by (simp add: xr_set_reg_uart_def xr_set_reg_run)

lemma gpio_bits_within_dtr_rts:
  "((if a then UART_MODE_RTS else 0) OR (if b then UART_MODE_DTR else 0))
     AND NOT (UART_MODE_DTR OR UART_MODE_RTS) = 0"
  by (simp add: UART_MODE_RTS_def UART_MODE_DTR_def)

lemma xr_tiocmset_port_world:
  assumes valid: "model p \<noteq> MAX_XR_MODELS"
  shows "snd (xr_tiocmset_port k e p set_mask clear_mask w) =
     w\<lparr>xfers := xfers w
          @ (if (if set_mask AND TIOCM_RTS k \<noteq> 0 then UART_MODE_RTS else 0)
                  OR (if set_mask AND TIOCM_DTR k \<noteq> 0 then UART_MODE_DTR else 0) \<noteq> 0
             then [set_reg_xfer p UART_REG_BLOCK (hal_reg p REG_GPIO_CLR)
                     ((if set_mask AND TIOCM_RTS k \<noteq> 0 then UART_MODE_RTS else 0)
                        OR (if set_mask AND TIOCM_DTR k \<noteq> 0 then UART_MODE_DTR else 0))]
             else [])
          @ (if (if clear_mask AND TIOCM_RTS k \<noteq> 0 then UART_MODE_RTS else 0)
                  OR (if clear_mask AND TIOCM_DTR k \<noteq> 0 then UART_MODE_DTR else 0) \<noteq> 0
             then [set_reg_xfer p UART_REG_BLOCK (hal_reg p REG_GPIO_SET)
                     ((if clear_mask AND TIOCM_RTS k \<noteq> 0 then UART_MODE_RTS else 0)
                        OR (if clear_mask AND TIOCM_DTR k \<noteq> 0 then UART_MODE_DTR else 0))]
             else [])\<rparr>"
  by (simp add: xr_tiocmset_port_def xr_set_reg_uart_run [OF valid] hal_reg_def Let_def
      UART_MODE_RTS_def UART_MODE_DTR_def)

text \<open>
  C9: \<^verbatim>\<open>xr_tiocmset_port\<close> reads only the \<^verbatim>\<open>TIOCM_DTR\<close> and \<^verbatim>\<open>TIOCM_RTS\<close> bits of
  its two masks, whatever values the headers give these two constants: clearing every
  other bit of both masks changes neither the status nor the world, and when neither
  mask has one of the two bits the call returns 0 and attempts no transfer. On one of
  the four chips the world after the call is the world before it followed by at most
  two transfers and nothing else: a write to \<^verbatim>\<open>GPIO_CLR\<close> of the RTS and DTR pin bits
  that the set mask selects, when there is one, then a write to \<^verbatim>\<open>GPIO_SET\<close> of the
  pin bits that the clear mask selects, when there is one. Both bytes lie within
  \<^verbatim>\<open>UART_MODE_DTR | UART_MODE_RTS\<close>, so no other pin and no other register is touched.
\<close>

theorem xr_tiocmset_port_dtr_rts_only:
  "xr_tiocmset_port k e p set_mask clear_mask w =
     xr_tiocmset_port k e p (set_mask AND (TIOCM_DTR k OR TIOCM_RTS k))
       (clear_mask AND (TIOCM_DTR k OR TIOCM_RTS k)) w
   \<and> (set_mask AND (TIOCM_DTR k OR TIOCM_RTS k) = 0
        \<and> clear_mask AND (TIOCM_DTR k OR TIOCM_RTS k) = 0 \<longrightarrow>
      xr_tiocmset_port k e p set_mask clear_mask w = (OK, w))
   \<and> (model p \<noteq> MAX_XR_MODELS \<longrightarrow>
      (let gpio_clr = (if set_mask AND TIOCM_RTS k \<noteq> 0 then UART_MODE_RTS else 0)
                        OR (if set_mask AND TIOCM_DTR k \<noteq> 0 then UART_MODE_DTR else 0);
           gpio_set = (if clear_mask AND TIOCM_RTS k \<noteq> 0 then UART_MODE_RTS else 0)
                        OR (if clear_mask AND TIOCM_DTR k \<noteq> 0 then UART_MODE_DTR else 0)
       in snd (xr_tiocmset_port k e p set_mask clear_mask w) =
            w\<lparr>xfers := xfers w
                 @ (if gpio_clr \<noteq> 0
                    then [set_reg_xfer p UART_REG_BLOCK (hal_reg p REG_GPIO_CLR) gpio_clr]
                    else [])
                 @ (if gpio_set \<noteq> 0
                    then [set_reg_xfer p UART_REG_BLOCK (hal_reg p REG_GPIO_SET) gpio_set]
                    else [])\<rparr>
          \<and> gpio_clr AND NOT (UART_MODE_DTR OR UART_MODE_RTS) = 0
          \<and> gpio_set AND NOT (UART_MODE_DTR OR UART_MODE_RTS) = 0))"
proof (intro conjI impI)
  show "xr_tiocmset_port k e p set_mask clear_mask w =
     xr_tiocmset_port k e p (set_mask AND (TIOCM_DTR k OR TIOCM_RTS k))
       (clear_mask AND (TIOCM_DTR k OR TIOCM_RTS k)) w"
    by (simp only: xr_tiocmset_port_def or_and_absorb or_and_absorb2)
next
  assume "set_mask AND (TIOCM_DTR k OR TIOCM_RTS k) = 0
        \<and> clear_mask AND (TIOCM_DTR k OR TIOCM_RTS k) = 0"
  then have "set_mask AND TIOCM_DTR k = 0" "set_mask AND TIOCM_RTS k = 0"
    "clear_mask AND TIOCM_DTR k = 0" "clear_mask AND TIOCM_RTS k = 0"
    using and_or_zero by blast+
  then show "xr_tiocmset_port k e p set_mask clear_mask w = (OK, w)"
    by (simp add: xr_tiocmset_port_def)
next
  assume valid: "model p \<noteq> MAX_XR_MODELS"
  show "let gpio_clr = (if set_mask AND TIOCM_RTS k \<noteq> 0 then UART_MODE_RTS else 0)
                        OR (if set_mask AND TIOCM_DTR k \<noteq> 0 then UART_MODE_DTR else 0);
           gpio_set = (if clear_mask AND TIOCM_RTS k \<noteq> 0 then UART_MODE_RTS else 0)
                        OR (if clear_mask AND TIOCM_DTR k \<noteq> 0 then UART_MODE_DTR else 0)
       in snd (xr_tiocmset_port k e p set_mask clear_mask w) =
            w\<lparr>xfers := xfers w
                 @ (if gpio_clr \<noteq> 0
                    then [set_reg_xfer p UART_REG_BLOCK (hal_reg p REG_GPIO_CLR) gpio_clr]
                    else [])
                 @ (if gpio_set \<noteq> 0
                    then [set_reg_xfer p UART_REG_BLOCK (hal_reg p REG_GPIO_SET) gpio_set]
                    else [])\<rparr>
          \<and> gpio_clr AND NOT (UART_MODE_DTR OR UART_MODE_RTS) = 0
          \<and> gpio_set AND NOT (UART_MODE_DTR OR UART_MODE_RTS) = 0"
    unfolding Let_def
    by (intro conjI xr_tiocmset_port_world [OF valid] gpio_bits_within_dtr_rts)
qed

theorem xr_tiocmset_port_dtr_rts_only_witness:
  "(0x140 :: u32) AND (TIOCM_DTR khdr_generic OR TIOCM_RTS khdr_generic) = 0
   \<and> (0x020 :: u32) AND (TIOCM_DTR khdr_generic OR TIOCM_RTS khdr_generic) = 0
   \<and> xr_tiocmset_port khdr_generic env_ok port_XR2280X 0x140 0x020 world0 = (OK, world0)
   \<and> xr_tiocmset_port khdr_generic env_ok port_XR2280X 0x142 0x024 world0
      = xr_tiocmset_port khdr_generic env_ok port_XR2280X 0x002 0x004 world0
   \<and> model port_XR2280X \<noteq> MAX_XR_MODELS
   \<and> snd (xr_tiocmset_port khdr_generic env_ok port_XR2280X 0x142 0x024 world0)
      = world0\<lparr>xfers :=
          [\<lparr>pipe = Snd_Ctrl, bRequest = 5, bmRequestType = 0x40, wValue = 0x0008,
            wIndex = 0x004f, wLength = 0, payload = []\<rparr>,
           \<lparr>pipe = Snd_Ctrl, bRequest = 5, bmRequestType = 0x40, wValue = 0x0020,
            wIndex = 0x004e, wLength = 0, payload = []\<rparr>]\<rparr>"
proof -
  have a: "(0x140 :: u32) AND (TIOCM_DTR khdr_generic OR TIOCM_RTS khdr_generic) = 0"
    and b: "(0x020 :: u32) AND (TIOCM_DTR khdr_generic OR TIOCM_RTS khdr_generic) = 0"
    and c: "(0x142 :: u32) AND (TIOCM_DTR khdr_generic OR TIOCM_RTS khdr_generic) = 0x002"
    and d: "(0x024 :: u32) AND (TIOCM_DTR khdr_generic OR TIOCM_RTS khdr_generic) = 0x004"
    by (simp_all add: khdr_generic_def)
  have v: "model port_XR2280X \<noteq> MAX_XR_MODELS"
    by (simp add: port_XR2280X_def)
  have "xr_tiocmset_port khdr_generic env_ok port_XR2280X 0x140 0x020 world0 = (OK, world0)"
    using xr_tiocmset_port_dtr_rts_only
            [of khdr_generic env_ok port_XR2280X "0x140" "0x020" world0] a b
    by blast
  moreover have "xr_tiocmset_port khdr_generic env_ok port_XR2280X 0x142 0x024 world0
      = xr_tiocmset_port khdr_generic env_ok port_XR2280X 0x002 0x004 world0"
    using conjunct1 [OF xr_tiocmset_port_dtr_rts_only
            [of khdr_generic env_ok port_XR2280X "0x142" "0x024" world0]]
    by (simp only: c d)
  moreover have "snd (xr_tiocmset_port khdr_generic env_ok port_XR2280X 0x142 0x024 world0)
      = world0\<lparr>xfers :=
          [\<lparr>pipe = Snd_Ctrl, bRequest = 5, bmRequestType = 0x40, wValue = 0x0008,
            wIndex = 0x004f, wLength = 0, payload = []\<rparr>,
           \<lparr>pipe = Snd_Ctrl, bRequest = 5, bmRequestType = 0x40, wValue = 0x0020,
            wIndex = 0x004e, wLength = 0, payload = []\<rparr>]\<rparr>"
    using conjunct2 [OF conjunct2 [OF xr_tiocmset_port_dtr_rts_only
            [of khdr_generic env_ok port_XR2280X "0x142" "0x024" world0]]] v
    by (simp add: Let_def khdr_generic_def set_reg_xfer_def channel_reg_def hal_reg_def
        xr_hal_table_def port_XR2280X_def world0_def UART_MODE_DTR_def UART_MODE_RTS_def
        UART_REG_BLOCK_def)
  ultimately show ?thesis using a b v by blast
qed

section \<open>Break signaling\<close>

lemma xr_usb_serial_ctrl_msg_nobuf:
  "xr_usb_serial_ctrl_msg e p request val [] w =
     (usb_status (usb_ret e (length (xfers w))),
      w\<lparr>xfers := xfers w @
         [\<lparr>pipe = Rcv_Ctrl, bRequest = word_of_int request, bmRequestType = 0x21,
           wValue = word_of_int val, wIndex = ucast (bInterfaceNumber (control_if p)),
           wLength = 0, payload = []\<rparr>]\<rparr>)"
  by (simp add: xr_usb_serial_ctrl_msg_def usb_control_msg_def usb_status_def
      USB_TYPE_CLASS_def USB_RECIP_INTERFACE_def)

text \<open>
  C4, evaluated on XR21B1411: whatever \<^verbatim>\<open>break_state\<close> is, the \<^verbatim>\<open>wValue\<close> of the
  \<^verbatim>\<open>SEND_BREAK\<close> request is the content of the unassigned variable \<^verbatim>\<open>state\<close>. With
  \<open>0xff\<close> left in it a release (\<^verbatim>\<open>break_state = 0\<close>) is sent with \<^verbatim>\<open>wValue = 0x00ff\<close>,
  and with 0 left in it a request with \<^verbatim>\<open>break_state = 1\<close> is sent with
  \<^verbatim>\<open>wValue = 0\<close>.
\<close>

theorem xr_break_ctl_class_wValue:
  "xfers (xr_break_ctl e port_XR21B1411 break_state w) =
     xfers w @ [\<lparr>pipe = Rcv_Ctrl, bRequest = 0x23, bmRequestType = 0x21,
                 wValue = ucast (uninit_state e), wIndex = 0, wLength = 0, payload = []\<rparr>]
   \<and> wValue (last (xfers (xr_break_ctl (env_ok\<lparr>uninit_state := 0xff\<rparr>) port_XR21B1411 0 world0)))
       = 0x00ff
   \<and> wValue (last (xfers (xr_break_ctl env_ok port_XR21B1411 1 world0))) = 0"
  by (simp add: xr_break_ctl_def xr_usb_serial_ctrl_msg_nobuf port_XR21B1411_def
      USB_CDC_REQ_SEND_BREAK_def env_ok_def)

text \<open>
  The XR21V141X half of the claim holds: one vendor write of \<open>0x00\<close> or \<open>0xff\<close> to
  \<^verbatim>\<open>TX_BREAK\<close> (\<open>0x14\<close>).
\<close>

lemma xr_break_ctl_XR21V141X:
  "model p = XR21V141X \<Longrightarrow>
   xr_break_ctl e p break_state w =
     w\<lparr>xfers := xfers w @
        [set_reg_xfer p UART_REG_BLOCK 0x14 (if break_state = 0 then 0x00 else 0xff)]\<rparr>"
  by (simp add: xr_break_ctl_def xr_set_reg_uart_def xr_set_reg_run xr_hal_table_def
      UART_BREAK_OFF_def UART_BREAK_ON_def)

section \<open>Traces of the register operations\<close>

lemma grows_by_writesI:
  "xfers w' = xfers w @ ws \<Longrightarrow> list_all is_reg_write ws \<Longrightarrow> allocs w' = allocs w \<Longrightarrow>
   grows_by_writes w w'"
  by (simp add: grows_by_writes_def emitted_def)

lemma grows_allocs: "grows_by_writes w w' \<Longrightarrow> allocs w' = allocs w"
  by (simp add: grows_by_writes_def)

lemma grows_by_writesD:
  "grows_by_writes w w' \<Longrightarrow>
   xfers w' = xfers w @ emitted w w' \<and> list_all is_reg_write (emitted w w')"
  unfolding grows_by_writes_def emitted_def
  by (metis append_take_drop_id)

lemma grows_refl: "grows_by_writes w w"
  by (simp add: grows_by_writes_def emitted_def)

lemma grows_trans:
  "grows_by_writes w w' \<Longrightarrow> grows_by_writes w' w'' \<Longrightarrow> grows_by_writes w w''"
proof -
  assume a: "grows_by_writes w w'" and b: "grows_by_writes w' w''"
  from grows_by_writesD [OF a] grows_by_writesD [OF b] grows_allocs [OF a] grows_allocs [OF b]
  have "xfers w'' = xfers w @ (emitted w w' @ emitted w' w'')"
    and "list_all is_reg_write (emitted w w' @ emitted w' w'')"
    and "allocs w'' = allocs w"
    by simp_all
  then show ?thesis by (rule grows_by_writesI)
qed

lemma emitted_append: "xfers w' = xfers w @ ws \<Longrightarrow> emitted w w' = ws"
  by (simp add: emitted_def)

lemma is_reg_write_set_reg_xfer: "is_reg_write (set_reg_xfer p block reg val)"
  by (simp add: is_reg_write_def set_reg_xfer_def)

lemma is_reg_read_get_reg_xfer: "is_reg_read (get_reg_xfer p block reg)"
  by (simp add: is_reg_read_def get_reg_xfer_def)

lemma write_not_read: "is_reg_write x \<Longrightarrow> \<not> is_reg_read x"
  by (auto simp: is_reg_write_def is_reg_read_def)

lemma grows_xr_set_reg: "grows_by_writes w (snd (xr_set_reg e p block reg val w))"
proof (cases "model p = MAX_XR_MODELS")
  case True
  then show ?thesis by (simp add: xr_set_reg_invalid grows_refl)
next
  case False
  then show ?thesis
    by (intro grows_by_writesI [where ws = "[set_reg_xfer p block reg val]"])
       (simp_all add: xr_set_reg_run is_reg_write_set_reg_xfer)
qed

lemma grows_xr_set_reg_uart: "grows_by_writes w (snd (xr_set_reg_uart e p reg val w))"
  by (simp add: xr_set_reg_uart_def grows_xr_set_reg)

lemma grows_xr_set_reg_um: "grows_by_writes w (snd (xr_set_reg_um e p reg val w))"
  by (simp add: xr_set_reg_um_def grows_xr_set_reg)

lemma grows_step:
  "grows_by_writes w w' \<Longrightarrow> grows_by_writes w (snd (xr_set_reg e p block reg val w'))"
  by (erule grows_trans) (rule grows_xr_set_reg)

lemma grows_step_uart:
  "grows_by_writes w w' \<Longrightarrow> grows_by_writes w (snd (xr_set_reg_uart e p reg val w'))"
  by (erule grows_trans) (rule grows_xr_set_reg_uart)

lemma grows_step_um:
  "grows_by_writes w w' \<Longrightarrow> grows_by_writes w (snd (xr_set_reg_um e p reg val w'))"
  by (erule grows_trans) (rule grows_xr_set_reg_um)

lemmas grows_intros = grows_refl grows_step_uart grows_step_um grows_xr_set_reg_uart grows_xr_set_reg_um

lemma grows_xr_uart_disable: "grows_by_writes w (snd (xr_uart_disable e p w))"
  by (simp add: xr_uart_disable_def Let_def case_prod_beta grows_intros)

lemma grows_xr_uart_enable: "grows_by_writes w (snd (xr_uart_enable e p w))"
  by (simp add: xr_uart_enable_def Let_def case_prod_beta grows_intros)

lemma grows_xr_tiocmset_port:
  "grows_by_writes w (snd (xr_tiocmset_port k e p set_mask clear_mask w))"
  by (simp add: xr_tiocmset_port_def Let_def case_prod_beta grows_intros)

lemma grows_xr_dtr_rts: "grows_by_writes w (xr_dtr_rts k e p on w)"
  by (simp add: xr_dtr_rts_def grows_xr_tiocmset_port)

lemma grows_write_regs: "grows_by_writes w (snd (write_regs e p rs w))"
proof (induction rs arbitrary: w)
  case Nil
  then show ?case by (simp add: grows_refl)
next
  case (Cons r rs)
  obtain reg val where r: "r = (reg, val)" by (cases r)
  show ?case
    using Cons.IH [of "snd (xr_set_reg_uart e p reg val w)"]
      grows_xr_set_reg_uart [of w e p reg val]
    by (auto simp: r write_regs_step Let_def simp del: write_regs.simps intro: grows_trans)
qed

lemma grows_xr_set_baudrate: "grows_by_writes w (snd (snd (xr_set_baudrate k e p tty w)))"
proof (cases "c_ospeed tty = 0")
  case True
  then show ?thesis by (simp add: xr_set_baudrate_def grows_refl)
next
  case False
  have "snd (snd (xr_set_baudrate k e p tty w))
      = snd (write_regs e p (spec_baud_writes (unat (c_ospeed tty))) w)"
    using xr_set_baudrate_writes [OF False, of k e p w]
    by (simp add: baud_writes_eq_spec prod_eq_iff)
  then show ?thesis by (simp add: grows_write_regs)
qed

lemma uart_disable_emits:
  "model p \<noteq> MAX_XR_MODELS \<Longrightarrow> emitted w (snd (xr_uart_disable e p w)) \<noteq> []"
  by (simp add: xr_uart_disable_def xr_set_reg_uart_def xr_set_reg_um_def xr_set_reg_run
      emitted_def Let_def)

lemma uart_enable_emits:
  "model p \<noteq> MAX_XR_MODELS \<Longrightarrow> emitted w (snd (xr_uart_enable e p w)) \<noteq> []"
  by (simp add: xr_uart_enable_def xr_set_reg_uart_def xr_set_reg_um_def xr_set_reg_run
      emitted_def Let_def)

section \<open>Flow mode\<close>

lemma xr_get_reg_uart_run:
  "model p \<noteq> MAX_XR_MODELS \<Longrightarrow>
   xr_get_reg_uart e p reg val w =
     (if \<not> kmalloc_ok e (allocs w) then (Inl ENOMEM, val, w\<lparr>allocs := Suc (allocs w)\<rparr>)
      else if usb_ret e (length (xfers w)) = 1
      then (OK, usb_in e (length (xfers w)),
            w\<lparr>allocs := Suc (allocs w),
              xfers := xfers w @ [get_reg_xfer p UART_REG_BLOCK reg]\<rparr>)
      else (if usb_ret e (length (xfers w)) \<ge> 0 then Inl EIO
            else Inl (EUSB (usb_ret e (length (xfers w)))),
            val,
            w\<lparr>allocs := Suc (allocs w),
              xfers := xfers w @ [get_reg_xfer p UART_REG_BLOCK reg]\<rparr>))"
  by (cases "model p")
     (simp_all add: xr_get_reg_uart_def xr_get_reg_def kmalloc_def usb_control_msg_def
        get_reg_xfer_def channel_reg_def USB_DIR_IN_def USB_TYPE_VENDOR_def USB_RECIP_DEVICE_def)

lemma xr_get_reg_uart_ok:
  assumes "model p \<noteq> MAX_XR_MODELS"
    and "fst (xr_get_reg_uart e p reg val w) = OK"
  shows "xfers (snd (snd (xr_get_reg_uart e p reg val w)))
           = xfers w @ [get_reg_xfer p UART_REG_BLOCK reg]"
    and "usb_ret e (length (xfers w)) = 1"
  using assms by (auto simp: xr_get_reg_uart_run split: if_splits)

lemma xr_get_reg_uart_failed:
  assumes "model p \<noteq> MAX_XR_MODELS"
    and "fst (xr_get_reg_uart e p reg val w) \<noteq> OK"
  shows "emitted w (snd (snd (xr_get_reg_uart e p reg val w))) = []
         \<or> (emitted w (snd (snd (xr_get_reg_uart e p reg val w)))
              = [get_reg_xfer p UART_REG_BLOCK reg]
            \<and> usb_ret e (length (xfers w)) \<noteq> 1)"
  using assms by (auto simp: xr_get_reg_uart_run emitted_def split: if_splits)

lemma xr_set_flow_mode_failed:
  "fst (xr_get_reg_uart e p (hal_reg p REG_GPIO_MODE) (uninit_gpio_mode e) w) \<noteq> OK \<Longrightarrow>
   xr_set_flow_mode k e p tty old_termios w
     = snd (snd (xr_get_reg_uart e p (hal_reg p REG_GPIO_MODE) (uninit_gpio_mode e) w))"
  by (simp add: xr_set_flow_mode_def hal_reg_def case_prod_beta)

lemma xr_set_reg_uart_xfers:
  "model p \<noteq> MAX_XR_MODELS \<Longrightarrow>
   xfers (snd (xr_set_reg_uart e p reg val w)) = xfers w @ [set_reg_xfer p UART_REG_BLOCK reg val]"
  by (simp add: xr_set_reg_uart_def xr_set_reg_run)

lemma xr_dtr_rts_xfers:
  assumes "model p \<noteq> MAX_XR_MODELS"
  shows "\<exists>m. xfers (xr_dtr_rts k e p on w) = xfers w @ m
     \<and> (m = [] \<or> (\<exists>v. m = [set_reg_xfer p UART_REG_BLOCK (hal_reg p REG_GPIO_SET) v])
               \<or> (\<exists>v. m = [set_reg_xfer p UART_REG_BLOCK (hal_reg p REG_GPIO_CLR) v]))"
  using assms
  by (auto simp: xr_dtr_rts_def xr_tiocmset_port_def xr_set_reg_uart_def xr_set_reg_run
      hal_reg_def Let_def)


text \<open>
  C6: in a call of \<^verbatim>\<open>xr_set_flow_mode\<close> on one of the four chips, if the \<^verbatim>\<open>GPIO_MODE\<close>
  read fails nothing is written at all. Otherwise the transfers of the call are, in this
  order: the read; nothing or the \<^verbatim>\<open>XON_CHAR\<close> and \<^verbatim>\<open>XOFF_CHAR\<close> writes; the
  transfers of \<^verbatim>\<open>xr_uart_disable\<close> run at that point (at least one); the one
  \<^verbatim>\<open>FLOW_CTRL\<close> write; the transfers of \<^verbatim>\<open>xr_uart_enable\<close> run at that point (at
  least one); the \<^verbatim>\<open>GPIO_MODE\<close> write and at most one write to \<^verbatim>\<open>GPIO_SET\<close> or
  \<^verbatim>\<open>GPIO_CLR\<close>. So the only \<^verbatim>\<open>FLOW_CTRL\<close> write of the call stands directly between
  a UART disable and a UART enable.
\<close>

theorem flow_ctrl_write_bracketed:
  assumes valid: "model p \<noteq> MAX_XR_MODELS"
  shows
    "(fst (xr_get_reg_uart e p (hal_reg p REG_GPIO_MODE) (uninit_gpio_mode e) w) \<noteq> OK \<longrightarrow>
        list_all is_reg_read (emitted w (xr_set_flow_mode k e p tty old_termios w)))
     \<and> (fst (xr_get_reg_uart e p (hal_reg p REG_GPIO_MODE) (uninit_gpio_mode e) w) = OK \<longrightarrow>
        (\<exists>pre flow post w2 w4.
           xfers w2 = xfers w @ get_reg_xfer p UART_REG_BLOCK (hal_reg p REG_GPIO_MODE) # pre
         \<and> xfers w4 = xfers w2 @ emitted w2 (snd (xr_uart_disable e p w2))
                        @ [set_reg_xfer p UART_REG_BLOCK (hal_reg p REG_FLOW_CTRL) flow]
         \<and> xfers (xr_set_flow_mode k e p tty old_termios w)
             = xfers w4 @ emitted w4 (snd (xr_uart_enable e p w4)) @ post
         \<and> emitted w2 (snd (xr_uart_disable e p w2)) \<noteq> []
         \<and> emitted w4 (snd (xr_uart_enable e p w4)) \<noteq> []
         \<and> (pre = []
            \<or> pre = [set_reg_xfer p UART_REG_BLOCK (hal_reg p REG_XON_CHAR) (START_CHAR k tty),
                      set_reg_xfer p UART_REG_BLOCK (hal_reg p REG_XOFF_CHAR) (STOP_CHAR k tty)])
         \<and> (\<exists>gm m. post = set_reg_xfer p UART_REG_BLOCK (hal_reg p REG_GPIO_MODE) gm # m
              \<and> (m = []
                 \<or> (\<exists>v. m = [set_reg_xfer p UART_REG_BLOCK (hal_reg p REG_GPIO_SET) v])
                 \<or> (\<exists>v. m = [set_reg_xfer p UART_REG_BLOCK (hal_reg p REG_GPIO_CLR) v])))))"
proof (intro conjI impI)
  let ?rd = "xr_get_reg_uart e p (hal_reg p REG_GPIO_MODE) (uninit_gpio_mode e) w"
  assume fail: "fst ?rd \<noteq> OK"
  from xr_get_reg_uart_failed [OF valid fail]
  show "list_all is_reg_read (emitted w (xr_set_flow_mode k e p tty old_termios w))"
    by (auto simp: xr_set_flow_mode_failed [OF fail] is_reg_read_get_reg_xfer)
next
  let ?rd = "xr_get_reg_uart e p (hal_reg p REG_GPIO_MODE) (uninit_gpio_mode e) w"
  assume ok: "fst ?rd = OK"
  define w1 where "w1 = snd (snd ?rd)"
  define hw where "hw \<longleftrightarrow> C_CRTSCTS k tty \<noteq> 0 \<and> C_BAUD k tty \<noteq> B0 k"
  define sw where "sw \<longleftrightarrow> I_IXON k tty \<noteq> 0"
  define w2 where
    "w2 = (if \<not> hw \<and> sw
           then snd (xr_set_reg_uart e p (hal_reg p REG_XOFF_CHAR) (STOP_CHAR k tty)
                  (snd (xr_set_reg_uart e p (hal_reg p REG_XON_CHAR) (START_CHAR k tty) w1)))
           else w1)"
  define flow where
    "flow = (if hw then UART_FLOW_MODE_HW else if sw then UART_FLOW_MODE_SW
             else UART_FLOW_MODE_NONE)"
  define gm where
    "gm = (let g = fst (snd ?rd) AND NOT UART_MODE_GPIO_MASK;
               g = (if hw then g OR UART_MODE_RTS_CTS else g)
           in if model p = XR21B142X then ucast ((ucast g :: u32) OR 0x300) else g)"
  define w3 where "w3 = snd (xr_uart_disable e p w2)"
  define w4 where "w4 = snd (xr_set_reg_uart e p (hal_reg p REG_FLOW_CTRL) flow w3)"
  define w5 where "w5 = snd (xr_uart_enable e p w4)"
  define w6 where "w6 = snd (xr_set_reg_uart e p (hal_reg p REG_GPIO_MODE) gm w5)"
  have unf: "xr_set_flow_mode k e p tty old_termios w =
      (if C_BAUD k tty = B0 k then xr_dtr_rts k e p False w6
       else if (case old_termios of None \<Rightarrow> False
                | Some old \<Rightarrow> c_cflag old AND CBAUD k = B0 k)
       then xr_dtr_rts k e p True w6 else w6)"
    using ok
    by (simp add: xr_set_flow_mode_def Let_def case_prod_beta w6_def w5_def w4_def w3_def
        w2_def w1_def flow_def gm_def hw_def sw_def hal_reg_def)
  have x1: "xfers w1 = xfers w @ [get_reg_xfer p UART_REG_BLOCK (hal_reg p REG_GPIO_MODE)]"
    unfolding w1_def by (rule xr_get_reg_uart_ok(1) [OF valid ok])
  define pre where
    "pre = (if \<not> hw \<and> sw
            then [set_reg_xfer p UART_REG_BLOCK (hal_reg p REG_XON_CHAR) (START_CHAR k tty),
                  set_reg_xfer p UART_REG_BLOCK (hal_reg p REG_XOFF_CHAR) (STOP_CHAR k tty)]
            else [])"
  have x2: "xfers w2 = xfers w @ get_reg_xfer p UART_REG_BLOCK (hal_reg p REG_GPIO_MODE) # pre"
    by (simp add: w2_def pre_def x1 xr_set_reg_uart_xfers [OF valid])
  have x3: "xfers w3 = xfers w2 @ emitted w2 (snd (xr_uart_disable e p w2))"
    unfolding w3_def using grows_by_writesD [OF grows_xr_uart_disable] by blast
  have x4: "xfers w4 = xfers w2 @ emitted w2 (snd (xr_uart_disable e p w2))
                        @ [set_reg_xfer p UART_REG_BLOCK (hal_reg p REG_FLOW_CTRL) flow]"
    by (simp add: w4_def xr_set_reg_uart_xfers [OF valid] x3)
  have x5: "xfers w5 = xfers w4 @ emitted w4 (snd (xr_uart_enable e p w4))"
    unfolding w5_def using grows_by_writesD [OF grows_xr_uart_enable] by blast
  have x6: "xfers w6 = xfers w5 @ [set_reg_xfer p UART_REG_BLOCK (hal_reg p REG_GPIO_MODE) gm]"
    by (simp add: w6_def xr_set_reg_uart_xfers [OF valid])
  have "\<exists>m. xfers (xr_set_flow_mode k e p tty old_termios w) = xfers w6 @ m
       \<and> (m = []
          \<or> (\<exists>v. m = [set_reg_xfer p UART_REG_BLOCK (hal_reg p REG_GPIO_SET) v])
          \<or> (\<exists>v. m = [set_reg_xfer p UART_REG_BLOCK (hal_reg p REG_GPIO_CLR) v]))"
    unfolding unf
    using xr_dtr_rts_xfers [OF valid, of k e False w6] xr_dtr_rts_xfers [OF valid, of k e True w6]
    by (cases "C_BAUD k tty = B0 k";
        cases "case old_termios of None \<Rightarrow> False
               | Some old \<Rightarrow> c_cflag old AND CBAUD k = B0 k"; simp)
  then obtain m where m: "xfers (xr_set_flow_mode k e p tty old_termios w) = xfers w6 @ m"
    and mshape: "m = []
       \<or> (\<exists>v. m = [set_reg_xfer p UART_REG_BLOCK (hal_reg p REG_GPIO_SET) v])
       \<or> (\<exists>v. m = [set_reg_xfer p UART_REG_BLOCK (hal_reg p REG_GPIO_CLR) v])"
    by blast
  have fin: "xfers (xr_set_flow_mode k e p tty old_termios w)
      = xfers w4 @ emitted w4 (snd (xr_uart_enable e p w4))
          @ (set_reg_xfer p UART_REG_BLOCK (hal_reg p REG_GPIO_MODE) gm # m)"
    by (simp add: m x6 x5)
  have prs: "pre = []
     \<or> pre = [set_reg_xfer p UART_REG_BLOCK (hal_reg p REG_XON_CHAR) (START_CHAR k tty),
               set_reg_xfer p UART_REG_BLOCK (hal_reg p REG_XOFF_CHAR) (STOP_CHAR k tty)]"
    by (simp add: pre_def)
  show "\<exists>pre flow post w2 w4.
           xfers w2 = xfers w @ get_reg_xfer p UART_REG_BLOCK (hal_reg p REG_GPIO_MODE) # pre
         \<and> xfers w4 = xfers w2 @ emitted w2 (snd (xr_uart_disable e p w2))
                        @ [set_reg_xfer p UART_REG_BLOCK (hal_reg p REG_FLOW_CTRL) flow]
         \<and> xfers (xr_set_flow_mode k e p tty old_termios w)
             = xfers w4 @ emitted w4 (snd (xr_uart_enable e p w4)) @ post
         \<and> emitted w2 (snd (xr_uart_disable e p w2)) \<noteq> []
         \<and> emitted w4 (snd (xr_uart_enable e p w4)) \<noteq> []
         \<and> (pre = []
            \<or> pre = [set_reg_xfer p UART_REG_BLOCK (hal_reg p REG_XON_CHAR) (START_CHAR k tty),
                      set_reg_xfer p UART_REG_BLOCK (hal_reg p REG_XOFF_CHAR) (STOP_CHAR k tty)])
         \<and> (\<exists>gm m. post = set_reg_xfer p UART_REG_BLOCK (hal_reg p REG_GPIO_MODE) gm # m
              \<and> (m = []
                 \<or> (\<exists>v. m = [set_reg_xfer p UART_REG_BLOCK (hal_reg p REG_GPIO_SET) v])
                 \<or> (\<exists>v. m = [set_reg_xfer p UART_REG_BLOCK (hal_reg p REG_GPIO_CLR) v])))"
    apply (rule exI [where x = pre])
    apply (rule exI [where x = flow])
    apply (rule exI [where x = "set_reg_xfer p UART_REG_BLOCK (hal_reg p REG_GPIO_MODE) gm # m"])
    apply (rule exI [where x = w2])
    apply (rule exI [where x = w4])
    apply (intro conjI)
          apply (rule x2)
         apply (rule x4)
        apply (rule fin)
       apply (rule uart_disable_emits [OF valid])
      apply (rule uart_enable_emits [OF valid])
     apply (rule prs)
    using mshape apply blast
    done
qed

theorem flow_ctrl_write_bracketed_witness:
  "model (port_XR21V141X 1) \<noteq> MAX_XR_MODELS
   \<and> fst (xr_get_reg_uart env_ok (port_XR21V141X 1) (hal_reg (port_XR21V141X 1) REG_GPIO_MODE)
            (uninit_gpio_mode env_ok) world0) = OK
   \<and> map (\<lambda>x. (wIndex x, wValue x))
        (xfers (xr_set_flow_mode khdr_generic env_ok (port_XR21V141X 1) tty_115200_8n1 None world0))
      = [(0x001a, 0), (0x0003, 0), (0x0410, 0), (0x000c, 0), (0x0410, 1), (0x0003, 3),
         (0x0410, 3), (0x001a, 0)]
   \<and> fst (xr_get_reg_uart env_timeout0 (port_XR21V141X 1)
            (hal_reg (port_XR21V141X 1) REG_GPIO_MODE) (uninit_gpio_mode env_timeout0) world0)
       \<noteq> OK
   \<and> list_all is_reg_read
        (emitted world0
           (xr_set_flow_mode khdr_generic env_timeout0 (port_XR21V141X 1) tty_115200_8n1 None
              world0))"
  using flow_ctrl_write_bracketed
          [of "port_XR21V141X 1" env_ok world0 khdr_generic tty_115200_8n1 None]
    flow_ctrl_write_bracketed
          [of "port_XR21V141X 1" env_timeout0 world0 khdr_generic tty_115200_8n1 None]
  by (simp add: xr_set_flow_mode_def xr_get_reg_uart_run xr_uart_disable_def xr_uart_enable_def
      xr_set_reg_uart_def xr_set_reg_um_def xr_set_reg_run xr_dtr_rts_def
      set_reg_xfer_def get_reg_xfer_def channel_reg_XR21V141X usb_status_def hal_reg_def
      xr_hal_table_def port_XR21V141X_def env_ok_def env_timeout0_def world0_def
      khdr_generic_def tty_115200_8n1_def C_BAUD_def C_CRTSCTS_def I_IXON_def
      UART_REG_BLOCK_def UM_REG_BLOCK_def UM_FIFO_ENABLE_REG_def UM_ENABLE_TX_FIFO_def
      UM_ENABLE_RX_FIFO_def UART_ENABLE_TX_def UART_ENABLE_RX_def UART_MODE_GPIO_MASK_def
      UART_FLOW_MODE_NONE_def emitted_def is_reg_read_def Let_def)

lemma grows_step_disable:
  "grows_by_writes w w' \<Longrightarrow> grows_by_writes w (snd (xr_uart_disable e p w'))"
  by (erule grows_trans) (rule grows_xr_uart_disable)

lemma grows_step_enable:
  "grows_by_writes w w' \<Longrightarrow> grows_by_writes w (snd (xr_uart_enable e p w'))"
  by (erule grows_trans) (rule grows_xr_uart_enable)

lemma grows_step_dtr_rts:
  "grows_by_writes w w' \<Longrightarrow> grows_by_writes w (xr_dtr_rts k e p on w')"
  by (erule grows_trans) (rule grows_xr_dtr_rts)

lemma xr_set_flow_mode_ok_grows:
  "fst (xr_get_reg_uart e p (hal_reg p REG_GPIO_MODE) (uninit_gpio_mode e) w) = OK \<Longrightarrow>
   grows_by_writes
     (snd (snd (xr_get_reg_uart e p (hal_reg p REG_GPIO_MODE) (uninit_gpio_mode e) w)))
     (xr_set_flow_mode k e p tty old_termios w)"
  by (auto simp: xr_set_flow_mode_def Let_def case_prod_beta hal_reg_def
      intro!: grows_step_dtr_rts grows_step_uart grows_step_enable grows_step_disable grows_refl)

section \<open>Termios translation\<close>

lemma xr_set_flow_mode_trace:
  assumes valid: "model p \<noteq> MAX_XR_MODELS"
  shows "\<exists>F. xfers (xr_set_flow_mode k e p tty old_termios w) = xfers w @ F
     \<and> read_then_writes e (length (xfers w)) F"
proof (cases "fst (xr_get_reg_uart e p (hal_reg p REG_GPIO_MODE) (uninit_gpio_mode e) w) = OK")
  case True
  let ?w1 = "snd (snd (xr_get_reg_uart e p (hal_reg p REG_GPIO_MODE) (uninit_gpio_mode e) w))"
  let ?w' = "xr_set_flow_mode k e p tty old_termios w"
  let ?F = "get_reg_xfer p UART_REG_BLOCK (hal_reg p REG_GPIO_MODE) # emitted ?w1 ?w'"
  from grows_by_writesD [OF xr_set_flow_mode_ok_grows [OF True, of k tty old_termios]]
  have "xfers ?w' = xfers ?w1 @ emitted ?w1 ?w'" and "list_all is_reg_write (emitted ?w1 ?w')"
    by simp_all
  with xr_get_reg_uart_ok [OF valid True]
  have "xfers ?w' = xfers w @ ?F" and "read_then_writes e (length (xfers w)) ?F"
    by (simp_all add: read_then_writes_def is_reg_read_get_reg_xfer)
  then show ?thesis by blast
next
  case False
  let ?rd = "get_reg_xfer p UART_REG_BLOCK (hal_reg p REG_GPIO_MODE)"
  from xr_get_reg_uart_failed [OF valid False]
  have "xfers (xr_set_flow_mode k e p tty old_termios w) = xfers w @ []
      \<or> xfers (xr_set_flow_mode k e p tty old_termios w) = xfers w @ [?rd]"
    by (auto simp: xr_set_flow_mode_failed [OF False] xr_get_reg_uart_run [OF valid] emitted_def
        split: if_splits)
  moreover have "read_then_writes e (length (xfers w)) []"
    and "read_then_writes e (length (xfers w)) [?rd]"
    by (simp_all add: read_then_writes_def is_reg_read_get_reg_xfer)
  ultimately show ?thesis by blast
qed

lemma xr_set_flow_mode_after_writes:
  assumes valid: "model p \<noteq> MAX_XR_MODELS" and g: "grows_by_writes w wA"
  shows "\<exists>A F. xfers (xr_set_flow_mode k e p tty old_termios wA) = xfers w @ A @ F
     \<and> list_all is_reg_write A \<and> read_then_writes e (length (xfers w) + length A) F"
proof -
  from grows_by_writesD [OF g]
  have a: "xfers wA = xfers w @ emitted w wA" and b: "list_all is_reg_write (emitted w wA)"
    by simp_all
  from xr_set_flow_mode_trace [OF valid, of k e tty old_termios wA]
  obtain F where "xfers (xr_set_flow_mode k e p tty old_termios wA) = xfers wA @ F"
    and "read_then_writes e (length (xfers wA)) F"
    by blast
  moreover have "length (xfers wA) = length (xfers w) + length (emitted w wA)"
    using a by (metis length_append)
  ultimately have "xfers (xr_set_flow_mode k e p tty old_termios wA) = xfers w @ emitted w wA @ F"
    and "read_then_writes e (length (xfers w) + length (emitted w wA)) F"
    using a by simp_all
  with b show ?thesis by blast
qed

lemma in_middle: "xs = us @ x # vs \<Longrightarrow> x \<in> set xs"
  by simp

lemma the_read_of_a_termios_trace:
  assumes eq: "A @ F @ B = a @ x # b"
    and x: "is_reg_read x"
    and A: "list_all is_reg_write A"
    and F: "read_then_writes e n F"
    and B: "list_all is_class_xfer B"
  shows "length a = length A \<and> (\<exists>rest. F = x # rest \<and> b = rest @ B
           \<and> list_all is_reg_write rest \<and> (usb_ret e n = 1 \<or> rest = []))"
proof -
  have notA: "x \<notin> set A"
    using A x write_not_read by (auto simp: list_all_iff)
  have notB: "x \<notin> set B"
    using B x by (auto simp: list_all_iff is_class_xfer_def)
  show ?thesis
  proof (cases F)
    case Nil
    with eq have "x \<in> set (A @ B)" by (simp add: in_middle)
    with notA notB show ?thesis by simp
  next
    case (Cons rd rest)
    with F have rd: "is_reg_read rd" and rest: "list_all is_reg_write rest"
      and ret: "usb_ret e n = 1 \<or> rest = []"
      by (simp_all add: read_then_writes_def)
    have notrest: "x \<notin> set rest"
      using rest x write_not_read by (auto simp: list_all_iff)
    from eq Cons have "A @ rd # (rest @ B) = a @ x # b" by simp
    then consider us where "A = a @ x # us"
      | "A = a" "rd = x" "rest @ B = b"
      | us where "a = A @ rd # us" "rest @ B = us @ x # b"
      by (auto simp: append_eq_append_conv2 append_eq_Cons_conv Cons_eq_append_conv)
    then show ?thesis
    proof cases
      case 1
      with notA show ?thesis by simp
    next
      case 2
      with Cons rest ret show ?thesis by simp
    next
      case 3
      then have "x \<in> set (rest @ B)" by (simp add: in_middle)
      with notrest notB show ?thesis by simp
    qed
  qed
qed

text \<open>
  C3 as stated fails: on XR2280X, with the baud unchanged, the termios call writes
  \<^verbatim>\<open>FORMAT\<close> and then reads \<^verbatim>\<open>GPIO_MODE\<close>; when that read times out, these two are
  all the transfers of the call, and none of them is a write to \<^verbatim>\<open>FLOW_CTRL\<close>
  (\<open>0x46\<close>).
\<close>

theorem termios_no_flow_ctrl_after_failed_read:
  "fst (xr_get_reg_uart env_timeout1 port_XR2280X (hal_reg port_XR2280X REG_GPIO_MODE)
          (uninit_gpio_mode env_timeout1)
          (snd (xr_set_reg_uart env_timeout1 port_XR2280X (hal_reg port_XR2280X REG_FORMAT) 0x08
                 world0)))
     = Inl (EUSB (- 110))
   \<and> xfers (snd (xr_set_termios khdr_generic env_timeout1 port_XR2280X tty_115200_8n1
                    (Some tty_115200_8n1) world0))
     = [\<lparr>pipe = Snd_Ctrl, bRequest = 5, bmRequestType = 0x40, wValue = 0x0008,
         wIndex = 0x0045, wLength = 0, payload = []\<rparr>,
        \<lparr>pipe = Rcv_Ctrl, bRequest = 5, bmRequestType = 0xC0, wValue = 0,
         wIndex = 0x004c, wLength = 1, payload = []\<rparr>]
   \<and> hal_reg port_XR2280X REG_FLOW_CTRL = 0x46
   \<and> \<not> list_ex (\<lambda>x. is_reg_write x \<and> wIndex x = 0x0046)
          (xfers (snd (xr_set_termios khdr_generic env_timeout1 port_XR2280X tty_115200_8n1
                         (Some tty_115200_8n1) world0)))"
  by (simp add: xr_set_termios_def xr_set_termios_format_reg_def xr_set_flow_mode_def
      xr_get_reg_uart_run xr_set_reg_uart_def xr_set_reg_run set_reg_xfer_def get_reg_xfer_def
      channel_reg_def usb_status_def hal_reg_def xr_hal_table_def VIA_CDC_REGISTER_def
      port_XR2280X_def env_timeout1_def world0_def khdr_generic_def tty_115200_8n1_def
      C_CSIZE_def C_PARENB_def C_CSTOPB_def UART_DATA_8_def UART_STOP_1_def UART_REG_BLOCK_def
      is_reg_write_def Let_def)

lemma xr_get_reg_uart_allocs:
  "allocs (snd (snd (xr_get_reg_uart e p reg val w))) = Suc (allocs w)"
  by (cases "model p")
     (simp_all add: xr_get_reg_uart_def xr_get_reg_def kmalloc_def usb_control_msg_def Let_def)

lemma xr_set_flow_mode_allocs:
  "allocs (xr_set_flow_mode k e p tty old_termios w) = Suc (allocs w)"
proof (cases "fst (xr_get_reg_uart e p (hal_reg p REG_GPIO_MODE) (uninit_gpio_mode e) w) = OK")
  case True
  from grows_allocs [OF xr_set_flow_mode_ok_grows [OF True, of k tty old_termios]]
  show ?thesis by (simp add: xr_get_reg_uart_allocs)
next
  case False
  then show ?thesis by (simp add: xr_set_flow_mode_failed xr_get_reg_uart_allocs)
qed

lemma set_line_coding_run:
  "length buf \<noteq> 0 \<Longrightarrow>
   snd (xr_usb_serial_ctrl_msg e p (uint USB_CDC_REQ_SET_LINE_CODING) 0 buf w) =
     w\<lparr>allocs := Suc (allocs w),
       xfers := xfers w @ (if kmalloc_ok e (allocs w) then [set_line_coding_xfer p buf] else [])\<rparr>"
  by (simp add: xr_usb_serial_ctrl_msg_def kmalloc_def usb_control_msg_def Let_def
      set_line_coding_xfer_def USB_TYPE_CLASS_def USB_RECIP_INTERFACE_def
      USB_CDC_REQ_SET_LINE_CODING_def)

lemma is_class_set_line_coding_xfer: "is_class_xfer (set_line_coding_xfer p buf)"
  by (simp add: is_class_xfer_def is_reg_write_def is_reg_read_def set_line_coding_xfer_def)

lemma xr_set_termios_format_reg_split:
  "\<exists>tty' wA. grows_by_writes w wA
     \<and> snd (xr_set_termios_format_reg k e p tty old_termios w)
         = xr_set_flow_mode k e p tty' old_termios wA"
  unfolding xr_set_termios_format_reg_def Let_def case_prod_beta snd_conv
  apply (rule exI, rule exI, rule conjI)
   prefer 2
   apply (rule refl)
  apply (rule grows_step_uart)
  apply (simp add: grows_xr_set_baudrate grows_refl)
  done

lemma xr_set_termios_cdc_split:
  "\<exists>wA buf. grows_by_writes w wA \<and> length buf = 7
     \<and> xr_set_termios_cdc k e p tty old_termios w
         = snd (xr_usb_serial_ctrl_msg e p (uint USB_CDC_REQ_SET_LINE_CODING) 0 buf
                  (xr_set_flow_mode k e p tty old_termios wA))"
  unfolding xr_set_termios_cdc_def Let_def case_prod_beta
  apply (rule exI, rule exI, intro conjI)
    prefer 3
    apply (rule refl)
   apply (simp add: grows_xr_tiocmset_port grows_refl)
  apply (simp add: le32_bytes_def cpu32_bytes_def)
  done


lemma xr_set_termios_shape:
  assumes valid: "model p \<noteq> MAX_XR_MODELS"
  shows "\<exists>A F buf.
       xfers (snd (xr_set_termios k e p tty old_termios w))
         = xfers w @ A @ F
             @ (if xr_hal_table (model p) REG_FORMAT = VIA_CDC_REGISTER
                   \<and> kmalloc_ok e (Suc (allocs w))
                then [set_line_coding_xfer p buf] else [])
     \<and> length buf = 7 \<and> list_all is_reg_write A
     \<and> read_then_writes e (length (xfers w) + length A) F"
proof (cases "xr_hal_table (model p) REG_FORMAT = VIA_CDC_REGISTER")
  case True
  from xr_set_termios_cdc_split [of w k e p tty old_termios]
  obtain wA buf where g: "grows_by_writes w wA" and len: "length buf = 7"
    and eq: "xr_set_termios_cdc k e p tty old_termios w
         = snd (xr_usb_serial_ctrl_msg e p (uint USB_CDC_REQ_SET_LINE_CODING) 0 buf
                  (xr_set_flow_mode k e p tty old_termios wA))"
    by blast
  let ?wF = "xr_set_flow_mode k e p tty old_termios wA"
  from xr_set_flow_mode_after_writes [OF valid g, of k e tty old_termios]
  obtain A F where f: "xfers ?wF = xfers w @ A @ F" and A: "list_all is_reg_write A"
    and F: "read_then_writes e (length (xfers w) + length A) F"
    by blast
  have al: "allocs ?wF = Suc (allocs w)"
    by (simp add: xr_set_flow_mode_allocs grows_allocs [OF g])
  from len have "length buf \<noteq> 0" by simp
  from set_line_coding_run [OF this, of e p ?wF]
  have "xfers (xr_set_termios_cdc k e p tty old_termios w)
      = xfers w @ A @ F
          @ (if kmalloc_ok e (Suc (allocs w)) then [set_line_coding_xfer p buf] else [])"
    by (simp add: eq f al)
  with True have "xfers (snd (xr_set_termios k e p tty old_termios w))
         = xfers w @ A @ F
             @ (if xr_hal_table (model p) REG_FORMAT = VIA_CDC_REGISTER
                   \<and> kmalloc_ok e (Suc (allocs w))
                then [set_line_coding_xfer p buf] else [])"
    by (simp add: xr_set_termios_def)
  with len A F show ?thesis by blast
next
  case False
  from xr_set_termios_format_reg_split [of w k e p tty old_termios]
  obtain tty' wA where g: "grows_by_writes w wA"
    and eq: "snd (xr_set_termios_format_reg k e p tty old_termios w)
         = xr_set_flow_mode k e p tty' old_termios wA"
    by blast
  from xr_set_flow_mode_after_writes [OF valid g, of k e tty' old_termios]
  obtain A F where f: "xfers (xr_set_flow_mode k e p tty' old_termios wA) = xfers w @ A @ F"
    and A: "list_all is_reg_write A"
    and F: "read_then_writes e (length (xfers w) + length A) F"
    by blast
  from False eq f have "xfers (snd (xr_set_termios k e p tty old_termios w))
         = xfers w @ A @ F
             @ (if xr_hal_table (model p) REG_FORMAT = VIA_CDC_REGISTER
                   \<and> kmalloc_ok e (Suc (allocs w))
                then [set_line_coding_xfer p (replicate 7 0)] else [])"
    by (simp add: xr_set_termios_def)
  moreover have "length (replicate 7 (0 :: u8)) = 7" by simp
  ultimately show ?thesis using A F by blast
qed

text \<open>
  C3 as amended: on one of the four chips, a failed \<^verbatim>\<open>GPIO_MODE\<close> read ends
  \<^verbatim>\<open>xr_set_flow_mode\<close> at once: the world it returns is the one the read left, with no
  register write attempted. The steps of the termios call outside \<^verbatim>\<open>xr_set_flow_mode\<close>
  are not aborted. On the private-register path \<^verbatim>\<open>xr_set_flow_mode\<close> is the last step:
  the world of the call is the world \<^verbatim>\<open>xr_set_flow_mode\<close> returns. On the CDC path the
  \<^verbatim>\<open>SET_LINE_CODING\<close> request with its seven-byte buffer is issued on the world
  \<^verbatim>\<open>xr_set_flow_mode\<close> returns, and reaches the wire exactly when the allocation of its
  buffer, the second allocation of the call, succeeds. So what follows, in the transfers
  of a termios call, a register read that did not return one byte is that one
  \<^verbatim>\<open>SET_LINE_CODING\<close> transfer on the CDC path when the allocation succeeds, and
  nothing otherwise.
\<close>

theorem failed_gpio_mode_read_ends_flow_mode:
  assumes valid: "model p \<noteq> MAX_XR_MODELS"
  shows
    "(fst (xr_get_reg_uart e p (hal_reg p REG_GPIO_MODE) (uninit_gpio_mode e) w) \<noteq> OK \<longrightarrow>
        xr_set_flow_mode k e p tty old_termios w
          = snd (snd (xr_get_reg_uart e p (hal_reg p REG_GPIO_MODE) (uninit_gpio_mode e) w))
        \<and> list_all is_reg_read (emitted w (xr_set_flow_mode k e p tty old_termios w)))
     \<and> (xr_hal_table (model p) REG_FORMAT \<noteq> VIA_CDC_REGISTER \<longrightarrow>
        (\<exists>tty' wA. grows_by_writes w wA
           \<and> snd (xr_set_termios k e p tty old_termios w)
               = xr_set_flow_mode k e p tty' old_termios wA))
     \<and> (xr_hal_table (model p) REG_FORMAT = VIA_CDC_REGISTER \<longrightarrow>
        (\<exists>wA buf. grows_by_writes w wA \<and> length buf = 7
           \<and> snd (xr_set_termios k e p tty old_termios w)
               = snd (xr_usb_serial_ctrl_msg e p (uint USB_CDC_REQ_SET_LINE_CODING) 0 buf
                        (xr_set_flow_mode k e p tty old_termios wA))
           \<and> emitted (xr_set_flow_mode k e p tty old_termios wA)
                (snd (xr_set_termios k e p tty old_termios w))
               = (if kmalloc_ok e (Suc (allocs w)) then [set_line_coding_xfer p buf] else [])))
     \<and> (xfers (snd (xr_set_termios k e p tty old_termios w)) = xfers w @ a @ x # b
        \<and> is_reg_read x \<and> usb_ret e (length (xfers w) + length a) \<noteq> 1 \<longrightarrow>
        (\<exists>buf. length buf = 7
           \<and> b = (if xr_hal_table (model p) REG_FORMAT = VIA_CDC_REGISTER
                      \<and> kmalloc_ok e (Suc (allocs w))
                   then [set_line_coding_xfer p buf] else [])))"
proof (intro conjI impI)
  assume fail: "fst (xr_get_reg_uart e p (hal_reg p REG_GPIO_MODE) (uninit_gpio_mode e) w) \<noteq> OK"
  show "xr_set_flow_mode k e p tty old_termios w
          = snd (snd (xr_get_reg_uart e p (hal_reg p REG_GPIO_MODE) (uninit_gpio_mode e) w))"
    by (rule xr_set_flow_mode_failed [OF fail])
  from xr_get_reg_uart_failed [OF valid fail]
  show "list_all is_reg_read (emitted w (xr_set_flow_mode k e p tty old_termios w))"
    by (auto simp: xr_set_flow_mode_failed [OF fail] is_reg_read_get_reg_xfer)
next
  assume "xr_hal_table (model p) REG_FORMAT \<noteq> VIA_CDC_REGISTER"
  then show "\<exists>tty' wA. grows_by_writes w wA
           \<and> snd (xr_set_termios k e p tty old_termios w)
               = xr_set_flow_mode k e p tty' old_termios wA"
    using xr_set_termios_format_reg_split [of w k e p tty old_termios]
    by (simp add: xr_set_termios_def)
next
  assume cdc: "xr_hal_table (model p) REG_FORMAT = VIA_CDC_REGISTER"
  from xr_set_termios_cdc_split [of w k e p tty old_termios]
  obtain wA buf where g: "grows_by_writes w wA" and len: "length buf = 7"
    and eq: "xr_set_termios_cdc k e p tty old_termios w
         = snd (xr_usb_serial_ctrl_msg e p (uint USB_CDC_REQ_SET_LINE_CODING) 0 buf
                  (xr_set_flow_mode k e p tty old_termios wA))"
    by blast
  let ?wF = "xr_set_flow_mode k e p tty old_termios wA"
  have al: "allocs ?wF = Suc (allocs w)"
    by (simp add: xr_set_flow_mode_allocs grows_allocs [OF g])
  from len have "length buf \<noteq> 0" by simp
  from set_line_coding_run [OF this, of e p ?wF]
  have em: "emitted ?wF (xr_set_termios_cdc k e p tty old_termios w)
      = (if kmalloc_ok e (Suc (allocs w)) then [set_line_coding_xfer p buf] else [])"
    by (simp add: eq al emitted_def)
  from cdc have t: "snd (xr_set_termios k e p tty old_termios w)
      = xr_set_termios_cdc k e p tty old_termios w"
    by (simp add: xr_set_termios_def)
  show "\<exists>wA buf. grows_by_writes w wA \<and> length buf = 7
           \<and> snd (xr_set_termios k e p tty old_termios w)
               = snd (xr_usb_serial_ctrl_msg e p (uint USB_CDC_REQ_SET_LINE_CODING) 0 buf
                        (xr_set_flow_mode k e p tty old_termios wA))
           \<and> emitted (xr_set_flow_mode k e p tty old_termios wA)
                (snd (xr_set_termios k e p tty old_termios w))
               = (if kmalloc_ok e (Suc (allocs w)) then [set_line_coding_xfer p buf] else [])"
    apply (rule exI [where x = wA])
    apply (rule exI [where x = buf])
    apply (intro conjI)
       apply (rule g)
      apply (rule len)
     apply (simp only: t eq)
    apply (simp only: t em)
    done
next
  assume h: "xfers (snd (xr_set_termios k e p tty old_termios w)) = xfers w @ a @ x # b
        \<and> is_reg_read x \<and> usb_ret e (length (xfers w) + length a) \<noteq> 1"
  from xr_set_termios_shape [OF valid, of k e tty old_termios w]
  obtain A F buf where
    t: "xfers (snd (xr_set_termios k e p tty old_termios w))
         = xfers w @ A @ F
             @ (if xr_hal_table (model p) REG_FORMAT = VIA_CDC_REGISTER
                   \<and> kmalloc_ok e (Suc (allocs w))
                then [set_line_coding_xfer p buf] else [])"
    and len: "length buf = 7"
    and A: "list_all is_reg_write A"
    and F: "read_then_writes e (length (xfers w) + length A) F"
    by blast
  let ?B = "if xr_hal_table (model p) REG_FORMAT = VIA_CDC_REGISTER
               \<and> kmalloc_ok e (Suc (allocs w))
            then [set_line_coding_xfer p buf] else []"
  have B: "list_all is_class_xfer ?B"
    by (simp add: is_class_set_line_coding_xfer)
  from t h have eq: "A @ F @ ?B = a @ x # b" by simp
  from the_read_of_a_termios_trace [OF eq _ A F B] h
  obtain rest where "length a = length A" and "b = rest @ ?B"
    and "usb_ret e (length (xfers w) + length A) = 1 \<or> rest = []"
    by blast
  with h have "b = ?B" by auto
  with len show "\<exists>buf. length buf = 7
           \<and> b = (if xr_hal_table (model p) REG_FORMAT = VIA_CDC_REGISTER
                      \<and> kmalloc_ok e (Suc (allocs w))
                   then [set_line_coding_xfer p buf] else [])"
    by blast
qed

theorem failed_gpio_mode_read_ends_flow_mode_witness:
  "model port_XR21B1411 \<noteq> MAX_XR_MODELS
   \<and> model port_XR2280X \<noteq> MAX_XR_MODELS
   \<and> fst (xr_get_reg_uart env_timeout0 port_XR21B1411 (hal_reg port_XR21B1411 REG_GPIO_MODE)
            (uninit_gpio_mode env_timeout0) world0) \<noteq> OK
   \<and> xr_set_flow_mode khdr_generic env_timeout0 port_XR21B1411 tty_115200_8n1 None world0
       = snd (snd (xr_get_reg_uart env_timeout0 port_XR21B1411 (hal_reg port_XR21B1411 REG_GPIO_MODE)
            (uninit_gpio_mode env_timeout0) world0))
   \<and> xr_hal_table (model port_XR2280X) REG_FORMAT \<noteq> VIA_CDC_REGISTER
   \<and> xfers (snd (xr_set_termios khdr_generic env_timeout1 port_XR2280X tty_115200_8n1 (Some tty_115200_8n1) world0))
       = xfers world0 @ [\<lparr>pipe = Snd_Ctrl, bRequest = 5, bmRequestType = 0x40, wValue = 0x0008,
            wIndex = 0x0045, wLength = 0, payload = []\<rparr>] @ \<lparr>pipe = Rcv_Ctrl, bRequest = 5, bmRequestType = 0xC0, wValue = 0,
            wIndex = 0x004c, wLength = 1, payload = []\<rparr> # []
   \<and> is_reg_read \<lparr>pipe = Rcv_Ctrl, bRequest = 5, bmRequestType = 0xC0, wValue = 0,
            wIndex = 0x004c, wLength = 1, payload = []\<rparr>
   \<and> usb_ret env_timeout1 (length (xfers world0) + length [\<lparr>pipe = Snd_Ctrl, bRequest = 5, bmRequestType = 0x40, wValue = 0x0008,
            wIndex = 0x0045, wLength = 0, payload = []\<rparr>]) \<noteq> 1
   \<and> (\<exists>tty' wA. grows_by_writes world0 wA
        \<and> snd (xr_set_termios khdr_generic env_timeout1 port_XR2280X tty_115200_8n1 (Some tty_115200_8n1) world0)
            = xr_set_flow_mode khdr_generic env_timeout1 port_XR2280X tty' (Some tty_115200_8n1) wA)
   \<and> xr_hal_table (model port_XR21B1411) REG_FORMAT = VIA_CDC_REGISTER
   \<and> xfers (snd (xr_set_termios khdr_generic env_timeout0 port_XR21B1411 tty_115200_8n1 None world0))
       = xfers world0 @ [] @ \<lparr>pipe = Rcv_Ctrl, bRequest = 1, bmRequestType = 0xC0, wValue = 0,
            wIndex = 0x000c, wLength = 1, payload = []\<rparr> # [\<lparr>pipe = Rcv_Ctrl, bRequest = 0x20, bmRequestType = 0x21, wValue = 0,
            wIndex = 0, wLength = 7, payload = [0x00, 0xc2, 0x01, 0x00, 0, 0, 8]\<rparr>]
   \<and> is_reg_read \<lparr>pipe = Rcv_Ctrl, bRequest = 1, bmRequestType = 0xC0, wValue = 0,
            wIndex = 0x000c, wLength = 1, payload = []\<rparr>
   \<and> usb_ret env_timeout0 (length (xfers world0) + length ([] :: xfer list)) \<noteq> 1
   \<and> kmalloc_ok env_timeout0 (Suc (allocs world0))
   \<and> (\<exists>buf. length buf = 7
        \<and> [\<lparr>pipe = Rcv_Ctrl, bRequest = 0x20, bmRequestType = 0x21, wValue = 0,
            wIndex = 0, wLength = 7, payload = [0x00, 0xc2, 0x01, 0x00, 0, 0, 8]\<rparr>]
            = (if xr_hal_table (model port_XR21B1411) REG_FORMAT = VIA_CDC_REGISTER
                  \<and> kmalloc_ok env_timeout0 (Suc (allocs world0))
               then [set_line_coding_xfer port_XR21B1411 buf] else []))
   \<and> xfers (snd (xr_set_termios khdr_generic env_timeout0_nomem port_XR21B1411 tty_115200_8n1 None world0))
       = xfers world0 @ [] @ \<lparr>pipe = Rcv_Ctrl, bRequest = 1, bmRequestType = 0xC0, wValue = 0,
            wIndex = 0x000c, wLength = 1, payload = []\<rparr> # []
   \<and> usb_ret env_timeout0_nomem (length (xfers world0) + length ([] :: xfer list)) \<noteq> 1
   \<and> \<not> kmalloc_ok env_timeout0_nomem (Suc (allocs world0))
   \<and> (\<exists>wA buf. grows_by_writes world0 wA \<and> length buf = 7
        \<and> snd (xr_set_termios khdr_generic env_timeout0_nomem port_XR21B1411 tty_115200_8n1 None world0)
            = snd (xr_usb_serial_ctrl_msg env_timeout0_nomem port_XR21B1411
                     (uint USB_CDC_REQ_SET_LINE_CODING) 0 buf
                     (xr_set_flow_mode khdr_generic env_timeout0_nomem port_XR21B1411
                        tty_115200_8n1 None wA))
        \<and> emitted (xr_set_flow_mode khdr_generic env_timeout0_nomem port_XR21B1411
                     tty_115200_8n1 None wA)
             (snd (xr_set_termios khdr_generic env_timeout0_nomem port_XR21B1411 tty_115200_8n1 None world0))
            = (if kmalloc_ok env_timeout0_nomem (Suc (allocs world0))
               then [set_line_coding_xfer port_XR21B1411 buf] else []))"
proof -
  have v1: "model port_XR21B1411 \<noteq> MAX_XR_MODELS"
    by (simp add: xr_set_termios_def xr_set_termios_cdc_def xr_set_termios_format_reg_def
        xr_set_flow_mode_def xr_tiocmset_port_def xr_usb_serial_ctrl_msg_def kmalloc_def
        usb_control_msg_def xr_get_reg_uart_run xr_set_reg_uart_def xr_set_reg_run
        set_reg_xfer_def get_reg_xfer_def channel_reg_def usb_status_def hal_reg_def
        xr_hal_table_def VIA_CDC_REGISTER_def le32_bytes_def cpu32_bytes_def
        port_XR21B1411_def port_XR2280X_def env_timeout0_def env_timeout0_nomem_def
        env_timeout1_def world0_def khdr_generic_def tty_115200_8n1_def
        C_CSIZE_def C_PARENB_def C_CSTOPB_def UART_DATA_8_def UART_STOP_1_def
        UART_MODE_DTR_def UART_REG_BLOCK_def USB_TYPE_CLASS_def USB_RECIP_INTERFACE_def
        USB_CDC_REQ_SET_LINE_CODING_def is_reg_read_def Let_def)
  have v2: "model port_XR2280X \<noteq> MAX_XR_MODELS"
    by (simp add: xr_set_termios_def xr_set_termios_cdc_def xr_set_termios_format_reg_def
        xr_set_flow_mode_def xr_tiocmset_port_def xr_usb_serial_ctrl_msg_def kmalloc_def
        usb_control_msg_def xr_get_reg_uart_run xr_set_reg_uart_def xr_set_reg_run
        set_reg_xfer_def get_reg_xfer_def channel_reg_def usb_status_def hal_reg_def
        xr_hal_table_def VIA_CDC_REGISTER_def le32_bytes_def cpu32_bytes_def
        port_XR21B1411_def port_XR2280X_def env_timeout0_def env_timeout0_nomem_def
        env_timeout1_def world0_def khdr_generic_def tty_115200_8n1_def
        C_CSIZE_def C_PARENB_def C_CSTOPB_def UART_DATA_8_def UART_STOP_1_def
        UART_MODE_DTR_def UART_REG_BLOCK_def USB_TYPE_CLASS_def USB_RECIP_INTERFACE_def
        USB_CDC_REQ_SET_LINE_CODING_def is_reg_read_def Let_def)
  have fail: "fst (xr_get_reg_uart env_timeout0 port_XR21B1411 (hal_reg port_XR21B1411 REG_GPIO_MODE)
            (uninit_gpio_mode env_timeout0) world0) \<noteq> OK"
    by (simp add: xr_set_termios_def xr_set_termios_cdc_def xr_set_termios_format_reg_def
        xr_set_flow_mode_def xr_tiocmset_port_def xr_usb_serial_ctrl_msg_def kmalloc_def
        usb_control_msg_def xr_get_reg_uart_run xr_set_reg_uart_def xr_set_reg_run
        set_reg_xfer_def get_reg_xfer_def channel_reg_def usb_status_def hal_reg_def
        xr_hal_table_def VIA_CDC_REGISTER_def le32_bytes_def cpu32_bytes_def
        port_XR21B1411_def port_XR2280X_def env_timeout0_def env_timeout0_nomem_def
        env_timeout1_def world0_def khdr_generic_def tty_115200_8n1_def
        C_CSIZE_def C_PARENB_def C_CSTOPB_def UART_DATA_8_def UART_STOP_1_def
        UART_MODE_DTR_def UART_REG_BLOCK_def USB_TYPE_CLASS_def USB_RECIP_INTERFACE_def
        USB_CDC_REQ_SET_LINE_CODING_def is_reg_read_def Let_def)
  have fmt: "xr_hal_table (model port_XR2280X) REG_FORMAT \<noteq> VIA_CDC_REGISTER"
    by (simp add: xr_set_termios_def xr_set_termios_cdc_def xr_set_termios_format_reg_def
        xr_set_flow_mode_def xr_tiocmset_port_def xr_usb_serial_ctrl_msg_def kmalloc_def
        usb_control_msg_def xr_get_reg_uart_run xr_set_reg_uart_def xr_set_reg_run
        set_reg_xfer_def get_reg_xfer_def channel_reg_def usb_status_def hal_reg_def
        xr_hal_table_def VIA_CDC_REGISTER_def le32_bytes_def cpu32_bytes_def
        port_XR21B1411_def port_XR2280X_def env_timeout0_def env_timeout0_nomem_def
        env_timeout1_def world0_def khdr_generic_def tty_115200_8n1_def
        C_CSIZE_def C_PARENB_def C_CSTOPB_def UART_DATA_8_def UART_STOP_1_def
        UART_MODE_DTR_def UART_REG_BLOCK_def USB_TYPE_CLASS_def USB_RECIP_INTERFACE_def
        USB_CDC_REQ_SET_LINE_CODING_def is_reg_read_def Let_def)
  have cdc: "xr_hal_table (model port_XR21B1411) REG_FORMAT = VIA_CDC_REGISTER"
    by (simp add: xr_set_termios_def xr_set_termios_cdc_def xr_set_termios_format_reg_def
        xr_set_flow_mode_def xr_tiocmset_port_def xr_usb_serial_ctrl_msg_def kmalloc_def
        usb_control_msg_def xr_get_reg_uart_run xr_set_reg_uart_def xr_set_reg_run
        set_reg_xfer_def get_reg_xfer_def channel_reg_def usb_status_def hal_reg_def
        xr_hal_table_def VIA_CDC_REGISTER_def le32_bytes_def cpu32_bytes_def
        port_XR21B1411_def port_XR2280X_def env_timeout0_def env_timeout0_nomem_def
        env_timeout1_def world0_def khdr_generic_def tty_115200_8n1_def
        C_CSIZE_def C_PARENB_def C_CSTOPB_def UART_DATA_8_def UART_STOP_1_def
        UART_MODE_DTR_def UART_REG_BLOCK_def USB_TYPE_CLASS_def USB_RECIP_INTERFACE_def
        USB_CDC_REQ_SET_LINE_CODING_def is_reg_read_def Let_def)
  have t3: "xfers (snd (xr_set_termios khdr_generic env_timeout1 port_XR2280X tty_115200_8n1 (Some tty_115200_8n1) world0))
       = xfers world0 @ [\<lparr>pipe = Snd_Ctrl, bRequest = 5, bmRequestType = 0x40, wValue = 0x0008,
            wIndex = 0x0045, wLength = 0, payload = []\<rparr>] @ \<lparr>pipe = Rcv_Ctrl, bRequest = 5, bmRequestType = 0xC0, wValue = 0,
            wIndex = 0x004c, wLength = 1, payload = []\<rparr> # []"
    by (simp add: xr_set_termios_def xr_set_termios_cdc_def xr_set_termios_format_reg_def
        xr_set_flow_mode_def xr_tiocmset_port_def xr_usb_serial_ctrl_msg_def kmalloc_def
        usb_control_msg_def xr_get_reg_uart_run xr_set_reg_uart_def xr_set_reg_run
        set_reg_xfer_def get_reg_xfer_def channel_reg_def usb_status_def hal_reg_def
        xr_hal_table_def VIA_CDC_REGISTER_def le32_bytes_def cpu32_bytes_def
        port_XR21B1411_def port_XR2280X_def env_timeout0_def env_timeout0_nomem_def
        env_timeout1_def world0_def khdr_generic_def tty_115200_8n1_def
        C_CSIZE_def C_PARENB_def C_CSTOPB_def UART_DATA_8_def UART_STOP_1_def
        UART_MODE_DTR_def UART_REG_BLOCK_def USB_TYPE_CLASS_def USB_RECIP_INTERFACE_def
        USB_CDC_REQ_SET_LINE_CODING_def is_reg_read_def Let_def)
  have r3: "is_reg_read \<lparr>pipe = Rcv_Ctrl, bRequest = 5, bmRequestType = 0xC0, wValue = 0,
            wIndex = 0x004c, wLength = 1, payload = []\<rparr>"
    by (simp add: xr_set_termios_def xr_set_termios_cdc_def xr_set_termios_format_reg_def
        xr_set_flow_mode_def xr_tiocmset_port_def xr_usb_serial_ctrl_msg_def kmalloc_def
        usb_control_msg_def xr_get_reg_uart_run xr_set_reg_uart_def xr_set_reg_run
        set_reg_xfer_def get_reg_xfer_def channel_reg_def usb_status_def hal_reg_def
        xr_hal_table_def VIA_CDC_REGISTER_def le32_bytes_def cpu32_bytes_def
        port_XR21B1411_def port_XR2280X_def env_timeout0_def env_timeout0_nomem_def
        env_timeout1_def world0_def khdr_generic_def tty_115200_8n1_def
        C_CSIZE_def C_PARENB_def C_CSTOPB_def UART_DATA_8_def UART_STOP_1_def
        UART_MODE_DTR_def UART_REG_BLOCK_def USB_TYPE_CLASS_def USB_RECIP_INTERFACE_def
        USB_CDC_REQ_SET_LINE_CODING_def is_reg_read_def Let_def)
  have u3: "usb_ret env_timeout1 (length (xfers world0) + length [\<lparr>pipe = Snd_Ctrl, bRequest = 5, bmRequestType = 0x40, wValue = 0x0008,
            wIndex = 0x0045, wLength = 0, payload = []\<rparr>]) \<noteq> 1"
    by (simp add: xr_set_termios_def xr_set_termios_cdc_def xr_set_termios_format_reg_def
        xr_set_flow_mode_def xr_tiocmset_port_def xr_usb_serial_ctrl_msg_def kmalloc_def
        usb_control_msg_def xr_get_reg_uart_run xr_set_reg_uart_def xr_set_reg_run
        set_reg_xfer_def get_reg_xfer_def channel_reg_def usb_status_def hal_reg_def
        xr_hal_table_def VIA_CDC_REGISTER_def le32_bytes_def cpu32_bytes_def
        port_XR21B1411_def port_XR2280X_def env_timeout0_def env_timeout0_nomem_def
        env_timeout1_def world0_def khdr_generic_def tty_115200_8n1_def
        C_CSIZE_def C_PARENB_def C_CSTOPB_def UART_DATA_8_def UART_STOP_1_def
        UART_MODE_DTR_def UART_REG_BLOCK_def USB_TYPE_CLASS_def USB_RECIP_INTERFACE_def
        USB_CDC_REQ_SET_LINE_CODING_def is_reg_read_def Let_def)
  have t1: "xfers (snd (xr_set_termios khdr_generic env_timeout0 port_XR21B1411 tty_115200_8n1 None world0))
       = xfers world0 @ [] @ \<lparr>pipe = Rcv_Ctrl, bRequest = 1, bmRequestType = 0xC0, wValue = 0,
            wIndex = 0x000c, wLength = 1, payload = []\<rparr> # [\<lparr>pipe = Rcv_Ctrl, bRequest = 0x20, bmRequestType = 0x21, wValue = 0,
            wIndex = 0, wLength = 7, payload = [0x00, 0xc2, 0x01, 0x00, 0, 0, 8]\<rparr>]"
    by (simp add: xr_set_termios_def xr_set_termios_cdc_def xr_set_termios_format_reg_def
        xr_set_flow_mode_def xr_tiocmset_port_def xr_usb_serial_ctrl_msg_def kmalloc_def
        usb_control_msg_def xr_get_reg_uart_run xr_set_reg_uart_def xr_set_reg_run
        set_reg_xfer_def get_reg_xfer_def channel_reg_def usb_status_def hal_reg_def
        xr_hal_table_def VIA_CDC_REGISTER_def le32_bytes_def cpu32_bytes_def
        port_XR21B1411_def port_XR2280X_def env_timeout0_def env_timeout0_nomem_def
        env_timeout1_def world0_def khdr_generic_def tty_115200_8n1_def
        C_CSIZE_def C_PARENB_def C_CSTOPB_def UART_DATA_8_def UART_STOP_1_def
        UART_MODE_DTR_def UART_REG_BLOCK_def USB_TYPE_CLASS_def USB_RECIP_INTERFACE_def
        USB_CDC_REQ_SET_LINE_CODING_def is_reg_read_def Let_def)
  have r1: "is_reg_read \<lparr>pipe = Rcv_Ctrl, bRequest = 1, bmRequestType = 0xC0, wValue = 0,
            wIndex = 0x000c, wLength = 1, payload = []\<rparr>"
    by (simp add: xr_set_termios_def xr_set_termios_cdc_def xr_set_termios_format_reg_def
        xr_set_flow_mode_def xr_tiocmset_port_def xr_usb_serial_ctrl_msg_def kmalloc_def
        usb_control_msg_def xr_get_reg_uart_run xr_set_reg_uart_def xr_set_reg_run
        set_reg_xfer_def get_reg_xfer_def channel_reg_def usb_status_def hal_reg_def
        xr_hal_table_def VIA_CDC_REGISTER_def le32_bytes_def cpu32_bytes_def
        port_XR21B1411_def port_XR2280X_def env_timeout0_def env_timeout0_nomem_def
        env_timeout1_def world0_def khdr_generic_def tty_115200_8n1_def
        C_CSIZE_def C_PARENB_def C_CSTOPB_def UART_DATA_8_def UART_STOP_1_def
        UART_MODE_DTR_def UART_REG_BLOCK_def USB_TYPE_CLASS_def USB_RECIP_INTERFACE_def
        USB_CDC_REQ_SET_LINE_CODING_def is_reg_read_def Let_def)
  have u1: "usb_ret env_timeout0 (length (xfers world0) + length ([] :: xfer list)) \<noteq> 1"
    by (simp add: xr_set_termios_def xr_set_termios_cdc_def xr_set_termios_format_reg_def
        xr_set_flow_mode_def xr_tiocmset_port_def xr_usb_serial_ctrl_msg_def kmalloc_def
        usb_control_msg_def xr_get_reg_uart_run xr_set_reg_uart_def xr_set_reg_run
        set_reg_xfer_def get_reg_xfer_def channel_reg_def usb_status_def hal_reg_def
        xr_hal_table_def VIA_CDC_REGISTER_def le32_bytes_def cpu32_bytes_def
        port_XR21B1411_def port_XR2280X_def env_timeout0_def env_timeout0_nomem_def
        env_timeout1_def world0_def khdr_generic_def tty_115200_8n1_def
        C_CSIZE_def C_PARENB_def C_CSTOPB_def UART_DATA_8_def UART_STOP_1_def
        UART_MODE_DTR_def UART_REG_BLOCK_def USB_TYPE_CLASS_def USB_RECIP_INTERFACE_def
        USB_CDC_REQ_SET_LINE_CODING_def is_reg_read_def Let_def)
  have k1: "kmalloc_ok env_timeout0 (Suc (allocs world0))"
    by (simp add: xr_set_termios_def xr_set_termios_cdc_def xr_set_termios_format_reg_def
        xr_set_flow_mode_def xr_tiocmset_port_def xr_usb_serial_ctrl_msg_def kmalloc_def
        usb_control_msg_def xr_get_reg_uart_run xr_set_reg_uart_def xr_set_reg_run
        set_reg_xfer_def get_reg_xfer_def channel_reg_def usb_status_def hal_reg_def
        xr_hal_table_def VIA_CDC_REGISTER_def le32_bytes_def cpu32_bytes_def
        port_XR21B1411_def port_XR2280X_def env_timeout0_def env_timeout0_nomem_def
        env_timeout1_def world0_def khdr_generic_def tty_115200_8n1_def
        C_CSIZE_def C_PARENB_def C_CSTOPB_def UART_DATA_8_def UART_STOP_1_def
        UART_MODE_DTR_def UART_REG_BLOCK_def USB_TYPE_CLASS_def USB_RECIP_INTERFACE_def
        USB_CDC_REQ_SET_LINE_CODING_def is_reg_read_def Let_def)
  have t2: "xfers (snd (xr_set_termios khdr_generic env_timeout0_nomem port_XR21B1411 tty_115200_8n1 None world0))
       = xfers world0 @ [] @ \<lparr>pipe = Rcv_Ctrl, bRequest = 1, bmRequestType = 0xC0, wValue = 0,
            wIndex = 0x000c, wLength = 1, payload = []\<rparr> # []"
    by (simp add: xr_set_termios_def xr_set_termios_cdc_def xr_set_termios_format_reg_def
        xr_set_flow_mode_def xr_tiocmset_port_def xr_usb_serial_ctrl_msg_def kmalloc_def
        usb_control_msg_def xr_get_reg_uart_run xr_set_reg_uart_def xr_set_reg_run
        set_reg_xfer_def get_reg_xfer_def channel_reg_def usb_status_def hal_reg_def
        xr_hal_table_def VIA_CDC_REGISTER_def le32_bytes_def cpu32_bytes_def
        port_XR21B1411_def port_XR2280X_def env_timeout0_def env_timeout0_nomem_def
        env_timeout1_def world0_def khdr_generic_def tty_115200_8n1_def
        C_CSIZE_def C_PARENB_def C_CSTOPB_def UART_DATA_8_def UART_STOP_1_def
        UART_MODE_DTR_def UART_REG_BLOCK_def USB_TYPE_CLASS_def USB_RECIP_INTERFACE_def
        USB_CDC_REQ_SET_LINE_CODING_def is_reg_read_def Let_def)
  have u2: "usb_ret env_timeout0_nomem (length (xfers world0) + length ([] :: xfer list)) \<noteq> 1"
    by (simp add: xr_set_termios_def xr_set_termios_cdc_def xr_set_termios_format_reg_def
        xr_set_flow_mode_def xr_tiocmset_port_def xr_usb_serial_ctrl_msg_def kmalloc_def
        usb_control_msg_def xr_get_reg_uart_run xr_set_reg_uart_def xr_set_reg_run
        set_reg_xfer_def get_reg_xfer_def channel_reg_def usb_status_def hal_reg_def
        xr_hal_table_def VIA_CDC_REGISTER_def le32_bytes_def cpu32_bytes_def
        port_XR21B1411_def port_XR2280X_def env_timeout0_def env_timeout0_nomem_def
        env_timeout1_def world0_def khdr_generic_def tty_115200_8n1_def
        C_CSIZE_def C_PARENB_def C_CSTOPB_def UART_DATA_8_def UART_STOP_1_def
        UART_MODE_DTR_def UART_REG_BLOCK_def USB_TYPE_CLASS_def USB_RECIP_INTERFACE_def
        USB_CDC_REQ_SET_LINE_CODING_def is_reg_read_def Let_def)
  have k2: "\<not> kmalloc_ok env_timeout0_nomem (Suc (allocs world0))"
    by (simp add: xr_set_termios_def xr_set_termios_cdc_def xr_set_termios_format_reg_def
        xr_set_flow_mode_def xr_tiocmset_port_def xr_usb_serial_ctrl_msg_def kmalloc_def
        usb_control_msg_def xr_get_reg_uart_run xr_set_reg_uart_def xr_set_reg_run
        set_reg_xfer_def get_reg_xfer_def channel_reg_def usb_status_def hal_reg_def
        xr_hal_table_def VIA_CDC_REGISTER_def le32_bytes_def cpu32_bytes_def
        port_XR21B1411_def port_XR2280X_def env_timeout0_def env_timeout0_nomem_def
        env_timeout1_def world0_def khdr_generic_def tty_115200_8n1_def
        C_CSIZE_def C_PARENB_def C_CSTOPB_def UART_DATA_8_def UART_STOP_1_def
        UART_MODE_DTR_def UART_REG_BLOCK_def USB_TYPE_CLASS_def USB_RECIP_INTERFACE_def
        USB_CDC_REQ_SET_LINE_CODING_def is_reg_read_def Let_def)
  have c1: "xr_set_flow_mode khdr_generic env_timeout0 port_XR21B1411 tty_115200_8n1 None world0
       = snd (snd (xr_get_reg_uart env_timeout0 port_XR21B1411 (hal_reg port_XR21B1411 REG_GPIO_MODE)
            (uninit_gpio_mode env_timeout0) world0))"
    using failed_gpio_mode_read_ends_flow_mode
        [where p = port_XR21B1411 and e = env_timeout0 and w = world0 and k = khdr_generic
         and tty = tty_115200_8n1 and old_termios = "None", OF v1] fail
    by blast
  have c2: "(\<exists>tty' wA. grows_by_writes world0 wA
        \<and> snd (xr_set_termios khdr_generic env_timeout1 port_XR2280X tty_115200_8n1 (Some tty_115200_8n1) world0)
            = xr_set_flow_mode khdr_generic env_timeout1 port_XR2280X tty' (Some tty_115200_8n1) wA)"
    using failed_gpio_mode_read_ends_flow_mode
        [where p = port_XR2280X and e = env_timeout1 and w = world0 and k = khdr_generic
         and tty = tty_115200_8n1 and old_termios = "Some tty_115200_8n1", OF v2] fmt
    by blast
  have c4: "(\<exists>buf. length buf = 7
        \<and> [\<lparr>pipe = Rcv_Ctrl, bRequest = 0x20, bmRequestType = 0x21, wValue = 0,
            wIndex = 0, wLength = 7, payload = [0x00, 0xc2, 0x01, 0x00, 0, 0, 8]\<rparr>]
            = (if xr_hal_table (model port_XR21B1411) REG_FORMAT = VIA_CDC_REGISTER
                  \<and> kmalloc_ok env_timeout0 (Suc (allocs world0))
               then [set_line_coding_xfer port_XR21B1411 buf] else []))"
    using failed_gpio_mode_read_ends_flow_mode
        [where p = port_XR21B1411 and e = env_timeout0 and w = world0 and k = khdr_generic
         and tty = tty_115200_8n1 and old_termios = "None"
         and a = "[]"
         and x = "\<lparr>pipe = Rcv_Ctrl, bRequest = 1, bmRequestType = 0xC0, wValue = 0,
            wIndex = 0x000c, wLength = 1, payload = []\<rparr>"
         and b = "[\<lparr>pipe = Rcv_Ctrl, bRequest = 0x20, bmRequestType = 0x21, wValue = 0,
            wIndex = 0, wLength = 7, payload = [0x00, 0xc2, 0x01, 0x00, 0, 0, 8]\<rparr>]", OF v1] t1 r1 u1
    by blast
  have c5: "(\<exists>wA buf. grows_by_writes world0 wA \<and> length buf = 7
        \<and> snd (xr_set_termios khdr_generic env_timeout0_nomem port_XR21B1411 tty_115200_8n1 None world0)
            = snd (xr_usb_serial_ctrl_msg env_timeout0_nomem port_XR21B1411
                     (uint USB_CDC_REQ_SET_LINE_CODING) 0 buf
                     (xr_set_flow_mode khdr_generic env_timeout0_nomem port_XR21B1411
                        tty_115200_8n1 None wA))
        \<and> emitted (xr_set_flow_mode khdr_generic env_timeout0_nomem port_XR21B1411
                     tty_115200_8n1 None wA)
             (snd (xr_set_termios khdr_generic env_timeout0_nomem port_XR21B1411 tty_115200_8n1 None world0))
            = (if kmalloc_ok env_timeout0_nomem (Suc (allocs world0))
               then [set_line_coding_xfer port_XR21B1411 buf] else []))"
    using failed_gpio_mode_read_ends_flow_mode
        [where p = port_XR21B1411 and e = env_timeout0_nomem and w = world0 and k = khdr_generic
         and tty = tty_115200_8n1 and old_termios = "None", OF v1] cdc
    by blast
  show ?thesis
    by (intro conjI v1 v2 fail c1 fmt t3 r3 u3 c2 cdc t1 r1 u1 k1 c4 t2 u2 k2 c5)
qed

end
